theory Spec2Isabelle
  imports Main "HOL-Library.Word"
begin

section \<open>Errors\<close>

text \<open>
  Go's \<open>error\<close> interface, restricted to the dynamic types the two resources meet:
  a structured API status error (\<open>*errors.StatusError\<close>, of which only
  \<open>ErrStatus.Code\<close> is read), an error built by \<open>fmt.Errorf\<close> (kept as the format
  string with its arguments, unrendered), the timeout error of the retry helper (with the
  last retryable error it saw, if any), and any other error, named by a string.
\<close>

datatype error =
    StatusError (Code: "32 word")
  | Errorf string "fmtarg list"
  | TimeoutError "error option"
  | OtherError string
and fmtarg =
    IntArg int
  | StrArg string
  | ErrArg error

section \<open>Persisted instance state and its migration\<close>

text \<open>
  \<open>terraform.InstanceState\<close>: the migration code reads and writes its \<open>Attributes\<close>
  map (Go \<open>map[string]string\<close>) and nothing else.
\<close>

type_synonym attrs = "string \<rightharpoonup> string"

record InstanceState =
  Attributes :: attrs

text \<open>
  Modelled from the spec: \<open>InstanceState.Empty\<close> is a method of the Terraform library,
  outside the repository. The spec describes the empty record as the one with
  ``no attributes at all''.
\<close>

definition Empty :: "InstanceState \<Rightarrow> bool" where
  "Empty st = (Attributes st = Map.empty)"

text \<open>\<open>strings.HasPrefix(s, prefix)\<close>.\<close>

definition HasPrefix :: "string \<Rightarrow> string \<Rightarrow> bool" where
  "HasPrefix s p = (take (length p) s = p)"

text \<open>
  \<open>strings.Replace(s, old, new, 1)\<close>: the first occurrence of \<open>old\<close> in \<open>s\<close> is replaced
  by \<open>new\<close>; \<open>s\<close> is returned as it is when \<open>old\<close> does not occur.
\<close>

fun Replace_once :: "string \<Rightarrow> string \<Rightarrow> string \<Rightarrow> string" where
  "Replace_once [] old new = (if old = [] then new else [])"
| "Replace_once (c # cs) old new =
     (if HasPrefix (c # cs) old then new @ drop (length old) (c # cs)
      else c # Replace_once cs old new)"

text \<open>
  One pass of the body of \<open>for k, v := range is.Attributes\<close> in \<open>migrateStateV0toV1\<close>,
  on the pair of the live attribute map and \<open>newTemplate\<close>. A key that has been removed
  before the iteration reaches it is not produced by \<open>range\<close>.
\<close>

definition v0_visit :: "string \<Rightarrow> attrs \<times> attrs \<Rightarrow> attrs \<times> attrs" where
  "v0_visit k s =
     (case s of (a, newTemplate) \<Rightarrow>
        (case a k of
           None \<Rightarrow> (a, newTemplate)
         | Some v \<Rightarrow>
             if HasPrefix k ''name'' then
               (if a ''metadata.0.name'' \<noteq> None then (a, newTemplate)
                else (a(k := None), newTemplate(''metadata.0.name'' \<mapsto> v)))
             else if \<not> HasPrefix k ''spec.0.template'' then (a, newTemplate)
             else if HasPrefix k ''spec.0.template.0.spec''
                     \<or> HasPrefix k ''spec.0.template.0.metadata'' then (a, newTemplate)
             else (a(k := None),
                   newTemplate(Replace_once k ''spec.0.template.0''
                                 ''spec.0.template.0.spec.0'' \<mapsto> v))))"

text \<open>
  The second loop, \<open>for k, v := range newTemplate { is.Attributes[k] = v }\<close>, visiting
  the keys in the order \<open>ks\<close>.
\<close>

fun copy_template :: "string list \<Rightarrow> attrs \<Rightarrow> attrs \<Rightarrow> attrs" where
  "copy_template [] newTemplate a = a"
| "copy_template (k # ks) newTemplate a =
     copy_template ks newTemplate
       (case newTemplate k of None \<Rightarrow> a | Some v \<Rightarrow> a(k \<mapsto> v))"

text \<open>
  An order in which \<open>range\<close> may produce the keys of a map: every key once. Go leaves
  the order unspecified.
\<close>

definition range_order :: "string list \<Rightarrow> attrs \<Rightarrow> bool" where
  "range_order ks m = (distinct ks \<and> set ks = dom m)"

text \<open>
  \<open>migrateStateV0toV1\<close>. The list \<open>ks\<close> is the order in which the first loop produces the
  keys of \<open>is.Attributes\<close>. The second loop writes distinct keys, so that its result
  is \<open>a ++ newTemplate\<close> in every order (lemma \<open>copy_template_map_add\<close> below).
\<close>

definition migrateStateV0toV1 :: "string list \<Rightarrow> InstanceState \<Rightarrow> InstanceState \<times> error option" where
  "migrateStateV0toV1 ks st =
     (case fold v0_visit ks (Attributes st, Map.empty) of
        (a, newTemplate) \<Rightarrow> (st\<lparr>Attributes := a ++ newTemplate\<rparr>, None))"

definition migrateStateV1toV2 :: "InstanceState \<Rightarrow> InstanceState \<times> error option" where
  "migrateStateV1toV2 st =
     (st\<lparr>Attributes := (Attributes st)(''spec.0.paused'' \<mapsto> ''false'',
                                        ''spec.0.progress_deadline_seconds'' \<mapsto> ''600'')\<rparr>,
      None)"

text \<open>
  The migration entry point. Go's \<open>switch\<close> runs the matching case only: there is no
  \<open>fallthrough\<close> from case 0 to case 1.
\<close>

definition resourceKubernetesDeploymentStateUpgrader ::
    "string list \<Rightarrow> int \<Rightarrow> InstanceState \<Rightarrow> InstanceState \<times> error option" where
  "resourceKubernetesDeploymentStateUpgrader ks v st =
     (if Empty st then (st, None)
      else if v = 0 then migrateStateV0toV1 ks st
      else if v = 1 then migrateStateV1toV2 st
      else (st, Some (Errorf ''Unexpected schema version: %d'' [IntArg v])))"

section \<open>The external API and the local resource record\<close>

text \<open>
  The fields of the API objects that the two resources read or write. \<open>Spec.Replicas\<close>
  is a pointer (\<open>*int32\<close>) and may be nil; \<open>Status.Replicas\<close> is an \<open>int32\<close>.
\<close>

record ObjectMeta =
  Name :: string
  Namespace :: string
  Labels :: "string \<rightharpoonup> string"

record DeploymentSpec =
  Replicas :: "32 word option"

record DeploymentStatus =
  StatusReplicas :: "32 word"

record Deployment =
  ObjectMeta :: ObjectMeta
  Spec :: DeploymentSpec
  Status :: DeploymentStatus

datatype PatchType = JSONPatchType | MergePatchType | StrategicMergePatchType

datatype DeletionPropagation =
  DeletePropagationOrphan | DeletePropagationBackground | DeletePropagationForeground

record DeleteOptions =
  PropagationPolicy :: "DeletionPropagation option"

text \<open>
  Modelled from the spec: the patch operation types are declared in a file of the
  repository that is not among the sources. The spec describes a patch operation as a
  tagged variant over add, replace and remove, each carrying a slash-delimited path and,
  for add and replace, a value. The values the two resources build are the integer 0 and
  an expanded deployment spec; \<open>'v\<close> stands for the values built elsewhere.
\<close>

datatype 'v PatchValue = IntValue int | SpecValue DeploymentSpec | ConfigValue 'v

datatype 'v PatchOperation =
    AddOperation string "'v PatchValue"
  | ReplaceOperation string "'v PatchValue"
  | RemoveOperation string

text \<open>
  \<open>*kubernetes.Clientset\<close>, as far as it is used: the calls on deployments and on roles,
  each a function of the state \<open>'w\<close> of the external system. A call that fails returns
  the error on the left.
\<close>

record 'w Clientset =
  DeploymentsGet :: "string \<Rightarrow> string \<Rightarrow> 'w \<Rightarrow> (error + Deployment) \<times> 'w"
  DeploymentsPatch :: "string \<Rightarrow> string \<Rightarrow> PatchType \<Rightarrow> string \<Rightarrow> 'w \<Rightarrow> (error + Deployment) \<times> 'w"
  DeploymentsDelete :: "string \<Rightarrow> string \<Rightarrow> DeleteOptions \<Rightarrow> 'w \<Rightarrow> error option \<times> 'w"
  RolesGet :: "string \<Rightarrow> string \<Rightarrow> 'w \<Rightarrow> error option \<times> 'w"
  RolesDelete :: "string \<Rightarrow> string \<Rightarrow> DeleteOptions \<Rightarrow> 'w \<Rightarrow> error option \<times> 'w"

text \<open>
  The calls issued so far are recorded beside the external state, in the order in which
  they are issued.
\<close>

datatype call =
    GetDeployment string string
  | PatchDeployment string string PatchType string
  | DeleteDeployment string string DeleteOptions
  | GetRole string string
  | DeleteRole string string DeleteOptions

type_synonym 'w sys = "'w \<times> call list"

definition callDeploymentsGet ::
    "'w Clientset \<Rightarrow> string \<Rightarrow> string \<Rightarrow> 'w sys \<Rightarrow> (error + Deployment) \<times> 'w sys" where
  "callDeploymentsGet conn ns name s =
     (case s of (w, tr) \<Rightarrow>
        (case DeploymentsGet conn ns name w of
           (r, w') \<Rightarrow> (r, (w', tr @ [GetDeployment ns name]))))"

definition callDeploymentsPatch ::
    "'w Clientset \<Rightarrow> string \<Rightarrow> string \<Rightarrow> PatchType \<Rightarrow> string \<Rightarrow> 'w sys
      \<Rightarrow> (error + Deployment) \<times> 'w sys" where
  "callDeploymentsPatch conn ns name pt data s =
     (case s of (w, tr) \<Rightarrow>
        (case DeploymentsPatch conn ns name pt data w of
           (r, w') \<Rightarrow> (r, (w', tr @ [PatchDeployment ns name pt data]))))"

definition callDeploymentsDelete ::
    "'w Clientset \<Rightarrow> string \<Rightarrow> string \<Rightarrow> DeleteOptions \<Rightarrow> 'w sys \<Rightarrow> error option \<times> 'w sys" where
  "callDeploymentsDelete conn ns name opts s =
     (case s of (w, tr) \<Rightarrow>
        (case DeploymentsDelete conn ns name opts w of
           (r, w') \<Rightarrow> (r, (w', tr @ [DeleteDeployment ns name opts]))))"

definition callRolesGet ::
    "'w Clientset \<Rightarrow> string \<Rightarrow> string \<Rightarrow> 'w sys \<Rightarrow> error option \<times> 'w sys" where
  "callRolesGet conn ns name s =
     (case s of (w, tr) \<Rightarrow>
        (case RolesGet conn ns name w of
           (r, w') \<Rightarrow> (r, (w', tr @ [GetRole ns name]))))"

definition callRolesDelete ::
    "'w Clientset \<Rightarrow> string \<Rightarrow> string \<Rightarrow> DeleteOptions \<Rightarrow> 'w sys \<Rightarrow> error option \<times> 'w sys" where
  "callRolesDelete conn ns name opts s =
     (case s of (w, tr) \<Rightarrow>
        (case RolesDelete conn ns name opts w of
           (r, w') \<Rightarrow> (r, (w', tr @ [DeleteRole ns name opts]))))"

text \<open>
  \<open>*schema.ResourceData\<close>: the stored identity (\<open>d.Id()\<close>, \<open>d.SetId\<close>) and the
  configuration held by the Terraform library, of an arbitrary type \<open>'c\<close>.
\<close>

record 'c ResourceData =
  ID :: string
  Config :: 'c

text \<open>
  The functions that the lifecycle operations call and that are defined elsewhere (in
  other files of the provider, or in the Terraform library) are parameters of the model.
  \<open>'v\<close> is the type of the values read from and written to the configuration.
  \<open>Timeout\<close> gives the number of polls that fit in the named timeout.
\<close>

record ('c, 'v) helpers =
  idParts :: "string \<Rightarrow> string \<times> string \<times> error option"
  MarshalJSON :: "'v PatchOperation list \<Rightarrow> string \<times> error option"
  patchMetadata :: "string \<Rightarrow> string \<Rightarrow> 'c ResourceData \<Rightarrow> 'v PatchOperation list"
  expandMetadata :: "'v \<Rightarrow> ObjectMeta"
  expandDeploymentSpec :: "'v \<Rightarrow> DeploymentSpec \<times> error option"
  flattenMetadata :: "ObjectMeta \<Rightarrow> 'c ResourceData \<Rightarrow> 'v"
  flattenDeploymentSpec :: "DeploymentSpec \<Rightarrow> 'c ResourceData \<Rightarrow> 'v \<times> error option"
  reconcileTopLevelLabels ::
    "(string \<rightharpoonup> string) \<Rightarrow> ObjectMeta \<Rightarrow> ObjectMeta \<Rightarrow> (string \<rightharpoonup> string)"
  dGet :: "string \<Rightarrow> 'c ResourceData \<Rightarrow> 'v"
  dSet :: "string \<Rightarrow> 'v \<Rightarrow> 'c ResourceData \<Rightarrow> error option \<times> 'c ResourceData"
  HasChange :: "string \<Rightarrow> 'c ResourceData \<Rightarrow> bool"
  Timeout :: "string \<Rightarrow> 'c ResourceData \<Rightarrow> nat"

section \<open>The convergence wait\<close>

text \<open>A function either returns or panics (here: on the dereference of a nil pointer).\<close>

datatype 'a outcome = Returns 'a | Panics

text \<open>
  \<open>*resource.RetryError\<close>, built by \<open>resource.RetryableError\<close> and
  \<open>resource.NonRetryableError\<close>; nil is \<open>None\<close>.
\<close>

datatype RetryError = RetryableError error | NonRetryableError error

text \<open>
  The closure returned by \<open>waitForDeploymentReplicasFunc(conn, ns, name)\<close>: one tick of
  the wait.
\<close>

definition waitForDeploymentReplicasFunc ::
    "'w Clientset \<Rightarrow> string \<Rightarrow> string \<Rightarrow> 'w sys \<Rightarrow> RetryError option outcome \<times> 'w sys" where
  "waitForDeploymentReplicasFunc conn ns name s =
     (case callDeploymentsGet conn ns name s of
        (Inl err, s') \<Rightarrow> (Returns (Some (NonRetryableError err)), s')
      | (Inr deployment, s') \<Rightarrow>
          (case Replicas (Spec deployment) of
             None \<Rightarrow> (Panics, s')
           | Some desiredReplicas \<Rightarrow>
               if StatusReplicas (Status deployment) = desiredReplicas then (Returns None, s')
               else (Returns (Some (RetryableError
                       (Errorf ''Waiting for %d replicas of %q to be scheduled (%d)''
                          [IntArg (sint desiredReplicas),
                           StrArg (Name (ObjectMeta deployment)),
                           IntArg (sint (StatusReplicas (Status deployment)))]))), s')))"

text \<open>
  Modelled from the spec: \<open>resource.Retry\<close> belongs to the Terraform library. By the
  spec, each tick invokes the poll function; an error that is not retryable ends the
  wait with that error, success ends it with nil, a retryable error leads to another
  tick, until the timeout is exceeded and a timeout error is returned. The first
  argument is the number of ticks that fit in the timeout; \<open>lastErr\<close> is the last
  retryable error.
\<close>

fun Retry_from ::
    "nat \<Rightarrow> ('s \<Rightarrow> RetryError option outcome \<times> 's) \<Rightarrow> error option \<Rightarrow> 's
      \<Rightarrow> error option outcome \<times> 's" where
  "Retry_from 0 f lastErr s = (Returns (Some (TimeoutError lastErr)), s)"
| "Retry_from (Suc n) f lastErr s =
     (case f s of
        (Panics, s') \<Rightarrow> (Panics, s')
      | (Returns None, s') \<Rightarrow> (Returns None, s')
      | (Returns (Some (NonRetryableError err)), s') \<Rightarrow> (Returns (Some err), s')
      | (Returns (Some (RetryableError err)), s') \<Rightarrow> Retry_from n f (Some err) s')"

definition Retry ::
    "nat \<Rightarrow> ('s \<Rightarrow> RetryError option outcome \<times> 's) \<Rightarrow> 's \<Rightarrow> error option outcome \<times> 's" where
  "Retry timeout f s = Retry_from timeout f None s"

section \<open>The deployment resource\<close>

definition resourceKubernetesDeploymentRead ::
    "('c, 'v) helpers \<Rightarrow> 'w Clientset \<Rightarrow> 'c ResourceData \<Rightarrow> 'w sys
      \<Rightarrow> error option \<times> 'c ResourceData \<times> 'w sys" where
  "resourceKubernetesDeploymentRead h conn d s =
     (case idParts h (ID d) of (namespace, name, err) \<Rightarrow>
        (case callDeploymentsGet conn namespace name s of
           (Inl err, s') \<Rightarrow> (Some err, d, s')
         | (Inr deployment, s') \<Rightarrow>
             (let labels = reconcileTopLevelLabels h (Labels (ObjectMeta deployment))
                             (expandMetadata h (dGet h ''metadata'' d))
                             (expandMetadata h (dGet h ''spec.0.template.0.metadata'' d));
                  deployment = deployment\<lparr>ObjectMeta := (ObjectMeta deployment)\<lparr>Labels := labels\<rparr>\<rparr>
              in case dSet h ''metadata'' (flattenMetadata h (ObjectMeta deployment) d) d of
                   (Some err, d1) \<Rightarrow> (Some err, d1, s')
                 | (None, d1) \<Rightarrow>
                     (case flattenDeploymentSpec h (Spec deployment) d1 of
                        (spec, Some err) \<Rightarrow> (Some err, d1, s')
                      | (spec, None) \<Rightarrow>
                          (case dSet h ''spec'' spec d1 of
                             (Some err, d2) \<Rightarrow> (Some err, d2, s')
                           | (None, d2) \<Rightarrow> (None, d2, s'))))))"

definition resourceKubernetesDeploymentUpdate ::
    "('c, 'v) helpers \<Rightarrow> 'w Clientset \<Rightarrow> 'c ResourceData \<Rightarrow> 'w sys
      \<Rightarrow> error option outcome \<times> 'c ResourceData \<times> 'w sys" where
  "resourceKubernetesDeploymentUpdate h conn d s =
     (case idParts h (ID d) of (namespace, name, err) \<Rightarrow>
        (let ops = patchMetadata h ''metadata.0.'' ''/metadata/'' d;
             changed =
               (if HasChange h ''spec'' d then
                  (case expandDeploymentSpec h (dGet h ''spec'' d) of
                     (spec, Some err) \<Rightarrow> Inl err
                   | (spec, None) \<Rightarrow> Inr (ops @ [ReplaceOperation ''/spec'' (SpecValue spec)]))
                else Inr ops)
         in case changed of
              Inl err \<Rightarrow> (Returns (Some err), d, s)
            | Inr ops \<Rightarrow>
                (case MarshalJSON h ops of
                   (data, Some err) \<Rightarrow>
                     (Returns (Some (Errorf ''Failed to marshal update operations: %s''
                                       [ErrArg err])), d, s)
                 | (data, None) \<Rightarrow>
                     (case callDeploymentsPatch conn namespace name JSONPatchType data s of
                        (Inl err, s1) \<Rightarrow>
                          (Returns (Some (Errorf ''Failed to update deployment: %s''
                                            [ErrArg err])), d, s1)
                      | (Inr out, s1) \<Rightarrow>
                          (case Retry (Timeout h ''update'' d)
                                  (waitForDeploymentReplicasFunc conn namespace name) s1 of
                             (Panics, s2) \<Rightarrow> (Panics, d, s2)
                           | (Returns (Some err), s2) \<Rightarrow> (Returns (Some err), d, s2)
                           | (Returns None, s2) \<Rightarrow>
                               (case resourceKubernetesDeploymentRead h conn d s2 of
                                  (e, d', s3) \<Rightarrow> (Returns e, d', s3)))))))"

definition resourceKubernetesDeploymentDelete ::
    "('c, 'v) helpers \<Rightarrow> 'w Clientset \<Rightarrow> 'c ResourceData \<Rightarrow> 'w sys
      \<Rightarrow> error option outcome \<times> 'c ResourceData \<times> 'w sys" where
  "resourceKubernetesDeploymentDelete h conn d s =
     (case idParts h (ID d) of (namespace, name, err) \<Rightarrow>
        (let ops = [] @ [ReplaceOperation ''/spec/replicas'' (IntValue 0)]
         in case MarshalJSON h ops of
              (data, Some err) \<Rightarrow> (Returns (Some err), d, s)
            | (data, None) \<Rightarrow>
                (case callDeploymentsPatch conn namespace name JSONPatchType data s of
                   (Inl err, s1) \<Rightarrow> (Returns (Some err), d, s1)
                 | (Inr out, s1) \<Rightarrow>
                     (case Retry (Timeout h ''delete'' d)
                             (waitForDeploymentReplicasFunc conn namespace name) s1 of
                        (Panics, s2) \<Rightarrow> (Panics, d, s2)
                      | (Returns (Some err), s2) \<Rightarrow> (Returns (Some err), d, s2)
                      | (Returns None, s2) \<Rightarrow>
                          (case callDeploymentsDelete conn namespace name
                                  \<lparr>PropagationPolicy = Some DeletePropagationForeground\<rparr> s2 of
                             (Some err, s3) \<Rightarrow> (Returns (Some err), d, s3)
                           | (None, s3) \<Rightarrow> (Returns None, d\<lparr>ID := []\<rparr>, s3))))))"

definition resourceKubernetesDeploymentExists ::
    "('c, 'v) helpers \<Rightarrow> 'w Clientset \<Rightarrow> 'c ResourceData \<Rightarrow> 'w sys
      \<Rightarrow> (bool \<times> error option) \<times> 'w sys" where
  "resourceKubernetesDeploymentExists h conn d s =
     (case idParts h (ID d) of (namespace, name, err) \<Rightarrow>
        (case callDeploymentsGet conn namespace name s of
           (Inl err, s') \<Rightarrow>
             (case err of
                StatusError code \<Rightarrow>
                  if code = 404 then ((False, None), s') else ((True, Some err), s')
              | _ \<Rightarrow> ((True, Some err), s'))
         | (Inr deployment, s') \<Rightarrow> ((True, None), s')))"

section \<open>The role resource\<close>

definition resourceKubernetesRoleCreate ::
    "'c ResourceData \<Rightarrow> 'w Clientset \<Rightarrow> 'w sys \<Rightarrow> error option \<times> 'c ResourceData \<times> 'w sys" where
  "resourceKubernetesRoleCreate d meta s = (None, d, s)"

definition resourceKubernetesRoleRead ::
    "'c ResourceData \<Rightarrow> 'w Clientset \<Rightarrow> 'w sys \<Rightarrow> error option \<times> 'c ResourceData \<times> 'w sys" where
  "resourceKubernetesRoleRead d meta s = (None, d, s)"

definition resourceKubernetesRoleUpdate ::
    "'c ResourceData \<Rightarrow> 'w Clientset \<Rightarrow> 'w sys \<Rightarrow> error option \<times> 'c ResourceData \<times> 'w sys" where
  "resourceKubernetesRoleUpdate d meta s = (None, d, s)"

definition resourceKubernetesRoleDelete ::
    "('c, 'v) helpers \<Rightarrow> 'c ResourceData \<Rightarrow> 'w Clientset \<Rightarrow> 'w sys
      \<Rightarrow> error option \<times> 'c ResourceData \<times> 'w sys" where
  "resourceKubernetesRoleDelete h d meta s =
     (case idParts h (ID d) of
        (namespace, name, Some err) \<Rightarrow> (Some err, d, s)
      | (namespace, name, None) \<Rightarrow>
          (case callRolesDelete meta namespace name \<lparr>PropagationPolicy = None\<rparr> s of
             (Some err, s') \<Rightarrow> (Some err, d, s')
           | (None, s') \<Rightarrow> (None, d\<lparr>ID := []\<rparr>, s')))"

definition resourceKubernetesRoleExists ::
    "('c, 'v) helpers \<Rightarrow> 'c ResourceData \<Rightarrow> 'w Clientset \<Rightarrow> 'w sys
      \<Rightarrow> (bool \<times> error option) \<times> 'w sys" where
  "resourceKubernetesRoleExists h d meta s =
     (case idParts h (ID d) of
        (namespace, name, Some err) \<Rightarrow> ((False, Some err), s)
      | (namespace, name, None) \<Rightarrow>
          (case callRolesGet meta namespace name s of
             (Some err, s') \<Rightarrow>
               (case err of
                  StatusError code \<Rightarrow>
                    if code = 404 then ((False, None), s') else ((True, Some err), s')
                | _ \<Rightarrow> ((True, Some err), s'))
           | (None, s') \<Rightarrow> ((True, None), s')))"

text \<open>
  \<open>resourceKubernetesRole\<close>: the five entry points that the role resource registers
  (its schema is left out).
\<close>

record ('c, 'w) Resource =
  Create :: "'c ResourceData \<Rightarrow> 'w Clientset \<Rightarrow> 'w sys \<Rightarrow> error option \<times> 'c ResourceData \<times> 'w sys"
  Read :: "'c ResourceData \<Rightarrow> 'w Clientset \<Rightarrow> 'w sys \<Rightarrow> error option \<times> 'c ResourceData \<times> 'w sys"
  Update :: "'c ResourceData \<Rightarrow> 'w Clientset \<Rightarrow> 'w sys \<Rightarrow> error option \<times> 'c ResourceData \<times> 'w sys"
  Delete :: "'c ResourceData \<Rightarrow> 'w Clientset \<Rightarrow> 'w sys \<Rightarrow> error option \<times> 'c ResourceData \<times> 'w sys"
  Exists :: "'c ResourceData \<Rightarrow> 'w Clientset \<Rightarrow> 'w sys \<Rightarrow> (bool \<times> error option) \<times> 'w sys"

definition resourceKubernetesRole :: "('c, 'v) helpers \<Rightarrow> ('c, 'w) Resource" where
  "resourceKubernetesRole h =
     \<lparr>Create = resourceKubernetesRoleCreate,
      Read = resourceKubernetesRoleRead,
      Update = resourceKubernetesRoleUpdate,
      Delete = resourceKubernetesRoleDelete h,
      Exists = resourceKubernetesRoleExists h\<rparr>"

section \<open>A scripted external API\<close>

text \<open>
  A stand-in for the external API, used for the concrete instances below: the state is the
  list of the results that the coming Get calls return, Patch and Delete succeed. The
  helper functions are the simplest ones; \<open>idParts\<close> accepts the one identity
  \<open>default/web\<close>, and the timeout allows three polls.
\<close>

definition deployment_with :: "32 word \<Rightarrow> 32 word \<Rightarrow> Deployment" where
  "deployment_with desired observed =
     \<lparr>ObjectMeta = \<lparr>Name = ''web'', Namespace = ''default'', Labels = Map.empty\<rparr>,
      Spec = \<lparr>Replicas = Some desired\<rparr>,
      Status = \<lparr>StatusReplicas = observed\<rparr>\<rparr>"

definition scripted_conn :: "(error + Deployment) list Clientset" where
  "scripted_conn =
     \<lparr>DeploymentsGet = (\<lambda>ns name w.
        case w of [] \<Rightarrow> (Inl (OtherError ''connection refused''), []) | r # w' \<Rightarrow> (r, w')),
      DeploymentsPatch = (\<lambda>ns name pt data w. (Inr (deployment_with 0 0), w)),
      DeploymentsDelete = (\<lambda>ns name opts w. (None, w)),
      RolesGet = (\<lambda>ns name w.
        case w of [] \<Rightarrow> (None, []) | Inl err # w' \<Rightarrow> (Some err, w') | Inr x # w' \<Rightarrow> (None, w')),
      RolesDelete = (\<lambda>ns name opts w. (None, w))\<rparr>"

definition scripted_helpers :: "(unit, unit) helpers" where
  "scripted_helpers =
     \<lparr>idParts = (\<lambda>i. if i = ''default/web'' then (''default'', ''web'', None)
                      else ([], [], Some (OtherError ''Unexpected ID format''))),
      MarshalJSON = (\<lambda>ops. (''json'', None)),
      patchMetadata = (\<lambda>p q d. []),
      expandMetadata = (\<lambda>v. \<lparr>Name = [], Namespace = [], Labels = Map.empty\<rparr>),
      expandDeploymentSpec = (\<lambda>v. (\<lparr>Replicas = None\<rparr>, None)),
      flattenMetadata = (\<lambda>m d. ()),
      flattenDeploymentSpec = (\<lambda>sp d. ((), None)),
      reconcileTopLevelLabels = (\<lambda>l m1 m2. l),
      dGet = (\<lambda>k d. ()),
      dSet = (\<lambda>k v d. (None, d)),
      HasChange = (\<lambda>k d. False),
      Timeout = (\<lambda>k d. Suc (Suc (Suc 0)))\<rparr>"

section \<open>Properties of the migration\<close>

lemma copy_template_map_add:
  "set ks = dom newTemplate \<Longrightarrow> copy_template ks newTemplate a = a ++ newTemplate"
proof -
  have gen: "copy_template ks nt a = a ++ (nt |` set ks)" for nt a
  proof (induction ks arbitrary: a)
    case Nil
    show ?case by simp
  next
    case (Cons k ks)
    show ?case
    proof (rule ext)
      fix x
      show "copy_template (k # ks) nt a x = (a ++ nt |` set (k # ks)) x"
        by (cases "nt k") (auto simp: Cons.IH map_add_def restrict_map_def split: option.splits)
    qed
  qed
  assume "set ks = dom newTemplate"
  then have "newTemplate |` set ks = newTemplate"
    by (auto simp: restrict_map_def fun_eq_iff domIff)
  with gen [of newTemplate a] show ?thesis by simp
qed

subsection \<open>Prefixes and the single pass of the first loop\<close>

lemma HasPrefix_Cons: "HasPrefix (c # cs) (d # ds) = (c = d \<and> HasPrefix cs ds)"
  by (auto simp: HasPrefix_def)

lemma HasPrefix_Nil_left: "HasPrefix [] (d # ds) = False"
  by (simp add: HasPrefix_def)

lemma HasPrefix_Nil: "HasPrefix s []"
  by (simp add: HasPrefix_def)

lemma HasPrefix_first: "HasPrefix k (c # p) \<Longrightarrow> \<exists>cs. k = c # cs"
  by (cases k) (auto simp: HasPrefix_def)

lemma Replace_once_first:
  assumes "HasPrefix k ''spec.0.template''"
  shows "HasPrefix (Replace_once k ''spec.0.template.0'' ''spec.0.template.0.spec.0'') ''s''"
proof -
  from assms obtain cs where k: "k = CHR ''s'' # cs"
    using HasPrefix_first by blast
  show ?thesis
    unfolding k by (simp add: HasPrefix_Cons HasPrefix_Nil)
qed

lemma v0_visit_cases:
  "v0_visit k (a, nt) = (a, nt) \<or>
   (\<exists>v. a k = Some v \<and> HasPrefix k ''name'' \<and> a ''metadata.0.name'' = None \<and>
        v0_visit k (a, nt) = (a(k := None), nt(''metadata.0.name'' \<mapsto> v))) \<or>
   (\<exists>v. a k = Some v \<and> \<not> HasPrefix k ''name'' \<and> HasPrefix k ''spec.0.template'' \<and>
        v0_visit k (a, nt) = (a(k := None),
           nt(Replace_once k ''spec.0.template.0'' ''spec.0.template.0.spec.0'' \<mapsto> v)))"
  by (auto simp: v0_visit_def split: option.splits)

lemma fold_v0_visit_keep:
  "a ''metadata.0.name'' = Some n \<Longrightarrow> (\<forall>x. nt x \<noteq> None \<longrightarrow> HasPrefix x ''s'') \<Longrightarrow>
   fold v0_visit ks (a, nt) = (a', nt') \<Longrightarrow>
   a' ''metadata.0.name'' = Some n \<and> (\<forall>x. HasPrefix x ''name'' \<longrightarrow> a' x = a x) \<and>
   (\<forall>x. nt' x \<noteq> None \<longrightarrow> HasPrefix x ''s'')"
proof (induction ks arbitrary: a nt)
  case Nil
  then show ?case by simp
next
  case (Cons k ks)
  from v0_visit_cases [of k a nt] Cons.prems(1)
  consider (same) "v0_visit k (a, nt) = (a, nt)"
    | (moved) v where "a k = Some v" "\<not> HasPrefix k ''name''" "HasPrefix k ''spec.0.template''"
        "v0_visit k (a, nt) = (a(k := None),
           nt(Replace_once k ''spec.0.template.0'' ''spec.0.template.0.spec.0'' \<mapsto> v))"
    by auto
  then show ?case
  proof cases
    case same
    with Cons.prems have "fold v0_visit ks (a, nt) = (a', nt')" by simp
    from Cons.IH [OF Cons.prems(1) Cons.prems(2) this] show ?thesis .
  next
    case moved
    let ?a1 = "a(k := None)"
    let ?nt1 = "nt(Replace_once k ''spec.0.template.0'' ''spec.0.template.0.spec.0'' \<mapsto> v)"
    have kne: "k \<noteq> ''metadata.0.name''"
      using moved(3) by (auto simp: HasPrefix_def)
    have a1: "?a1 ''metadata.0.name'' = Some n"
      using Cons.prems(1) kne by simp
    have nt1: "\<forall>x. ?nt1 x \<noteq> None \<longrightarrow> HasPrefix x ''s''"
      using Cons.prems(2) Replace_once_first [OF moved(3)] by auto
    have "fold v0_visit ks (?a1, ?nt1) = (a', nt')"
      using Cons.prems(3) moved(4) by simp
    from Cons.IH [OF a1 nt1 this]
    have r: "a' ''metadata.0.name'' = Some n" "\<forall>x. HasPrefix x ''name'' \<longrightarrow> a' x = ?a1 x"
      "\<forall>x. nt' x \<noteq> None \<longrightarrow> HasPrefix x ''s''"
      by auto
    have "\<forall>x. HasPrefix x ''name'' \<longrightarrow> ?a1 x = a x"
      using moved(2) by auto
    with r show ?thesis by simp
  qed
qed

lemma s_not_name: "HasPrefix x ''s'' \<Longrightarrow> \<not> HasPrefix x ''name'' \<and> x \<noteq> ''metadata.0.name''"
  by (cases x) (auto simp: HasPrefix_Cons HasPrefix_Nil_left)

lemma fold_v0_visit_done:
  "a ''name'' = None \<Longrightarrow> nt ''metadata.0.name'' = Some n \<Longrightarrow>
   (\<forall>x. nt x \<noteq> None \<longrightarrow> x = ''metadata.0.name'' \<or> HasPrefix x ''s'') \<Longrightarrow>
   (\<forall>k\<in>set ks. HasPrefix k ''name'' \<longrightarrow> k = ''name'') \<Longrightarrow>
   fold v0_visit ks (a, nt) = (a', nt') \<Longrightarrow>
   a' ''name'' = None \<and> nt' ''metadata.0.name'' = Some n \<and> nt' ''name'' = None"
proof (induction ks arbitrary: a nt)
  case Nil
  then have "nt' ''name'' = None"
    using s_not_name [of "''name''"] by (auto simp: HasPrefix_def)
  with Nil show ?case by simp
next
  case (Cons k ks)
  have rest: "\<forall>k\<in>set ks. HasPrefix k ''name'' \<longrightarrow> k = ''name''"
    using Cons.prems(4) by simp
  have no_name: "\<not> (\<exists>v. a k = Some v \<and> HasPrefix k ''name'')"
    using Cons.prems(1) Cons.prems(4) by auto
  from v0_visit_cases [of k a nt] no_name
  consider (same) "v0_visit k (a, nt) = (a, nt)"
    | (moved) v where "a k = Some v" "\<not> HasPrefix k ''name''" "HasPrefix k ''spec.0.template''"
        "v0_visit k (a, nt) = (a(k := None),
           nt(Replace_once k ''spec.0.template.0'' ''spec.0.template.0.spec.0'' \<mapsto> v))"
    by auto
  then show ?case
  proof cases
    case same
    with Cons.prems have "fold v0_visit ks (a, nt) = (a', nt')" by simp
    from Cons.IH [OF Cons.prems(1) Cons.prems(2) Cons.prems(3) rest this] show ?thesis .
  next
    case moved
    let ?newK = "Replace_once k ''spec.0.template.0'' ''spec.0.template.0.spec.0''"
    let ?a1 = "a(k := None)"
    let ?nt1 = "nt(?newK \<mapsto> v)"
    have s: "HasPrefix ?newK ''s''" by (rule Replace_once_first [OF moved(3)])
    then have ne: "?newK \<noteq> ''metadata.0.name''" using s_not_name by blast
    have a1: "?a1 ''name'' = None" using Cons.prems(1) by simp
    have nt1: "?nt1 ''metadata.0.name'' = Some n" using Cons.prems(2) ne by simp
    have inv: "\<forall>x. ?nt1 x \<noteq> None \<longrightarrow> x = ''metadata.0.name'' \<or> HasPrefix x ''s''"
      using Cons.prems(3) s by auto
    have "fold v0_visit ks (?a1, ?nt1) = (a', nt')"
      using Cons.prems(5) moved(4) by simp
    from Cons.IH [OF a1 nt1 inv rest this] show ?thesis .
  qed
qed

lemma v0_visit_name:
  "a ''name'' = Some n \<Longrightarrow> a ''metadata.0.name'' = None \<Longrightarrow>
   v0_visit ''name'' (a, nt) = (a(''name'' := None), nt(''metadata.0.name'' \<mapsto> n))"
  by (simp add: v0_visit_def HasPrefix_def)

lemma fold_v0_visit_pending:
  "a ''name'' = Some n \<Longrightarrow> a ''metadata.0.name'' = None \<Longrightarrow> ''name'' \<in> set ks \<Longrightarrow>
   (\<forall>x. nt x \<noteq> None \<longrightarrow> x = ''metadata.0.name'' \<or> HasPrefix x ''s'') \<Longrightarrow>
   (\<forall>k\<in>set ks. HasPrefix k ''name'' \<longrightarrow> k = ''name'') \<Longrightarrow>
   fold v0_visit ks (a, nt) = (a', nt') \<Longrightarrow>
   a' ''name'' = None \<and> nt' ''metadata.0.name'' = Some n \<and> nt' ''name'' = None"
proof (induction ks arbitrary: a nt)
  case Nil
  then show ?case by simp
next
  case (Cons k ks)
  have rest: "\<forall>k\<in>set ks. HasPrefix k ''name'' \<longrightarrow> k = ''name''"
    using Cons.prems(5) by simp
  show ?case
  proof (cases "k = ''name''")
    case True
    let ?a1 = "a(''name'' := None)"
    let ?nt1 = "nt(''metadata.0.name'' \<mapsto> n)"
    have step: "fold v0_visit ks (?a1, ?nt1) = (a', nt')"
      using Cons.prems(6) True v0_visit_name [OF Cons.prems(1) Cons.prems(2), of nt] by simp
    have a1: "?a1 ''name'' = None" by simp
    have nt1: "?nt1 ''metadata.0.name'' = Some n" by simp
    have inv: "\<forall>x. ?nt1 x \<noteq> None \<longrightarrow> x = ''metadata.0.name'' \<or> HasPrefix x ''s''"
      using Cons.prems(4) by auto
    from fold_v0_visit_done [OF a1 nt1 inv rest step] show ?thesis .
  next
    case False
    then have np: "\<not> HasPrefix k ''name''" using Cons.prems(5) by auto
    have mem: "''name'' \<in> set ks" using Cons.prems(3) False by auto
    from v0_visit_cases [of k a nt] np
    consider (same) "v0_visit k (a, nt) = (a, nt)"
      | (moved) v where "a k = Some v" "HasPrefix k ''spec.0.template''"
          "v0_visit k (a, nt) = (a(k := None),
             nt(Replace_once k ''spec.0.template.0'' ''spec.0.template.0.spec.0'' \<mapsto> v))"
      by auto
    then show ?thesis
    proof cases
      case same
      with Cons.prems have "fold v0_visit ks (a, nt) = (a', nt')" by simp
      from Cons.IH [OF Cons.prems(1) Cons.prems(2) mem Cons.prems(4) rest this] show ?thesis .
    next
      case moved
      let ?newK = "Replace_once k ''spec.0.template.0'' ''spec.0.template.0.spec.0''"
      let ?a1 = "a(k := None)"
      let ?nt1 = "nt(?newK \<mapsto> v)"
      have s: "HasPrefix ?newK ''s''" by (rule Replace_once_first [OF moved(2)])
      have a1: "?a1 ''name'' = Some n" using Cons.prems(1) False by auto
      have a2: "?a1 ''metadata.0.name'' = None" using Cons.prems(2) by simp
      have inv: "\<forall>x. ?nt1 x \<noteq> None \<longrightarrow> x = ''metadata.0.name'' \<or> HasPrefix x ''s''"
        using Cons.prems(4) s by auto
      have "fold v0_visit ks (?a1, ?nt1) = (a', nt')"
        using Cons.prems(6) moved(3) by simp
      from Cons.IH [OF a1 a2 mem inv rest this] show ?thesis .
    qed
  qed
qed

subsection \<open>The entry point\<close>

lemma upgrader_v0_is_first_step:
  "\<not> Empty st \<Longrightarrow>
   resourceKubernetesDeploymentStateUpgrader ks 0 st = migrateStateV0toV1 ks st"
  by (simp add: resourceKubernetesDeploymentStateUpgrader_def)

text \<open>
  Claim C1 says that a non-empty record at version 0 is taken through every step up to
  version 2, so that the result holds the defaults of the second step. The entry point
  runs the step of the given version only: on the record with the one attribute
  \<open>name = web\<close> and version 0 it returns the result of the first step, in which
  \<open>spec.0.paused\<close> and \<open>spec.0.progress_deadline_seconds\<close> are absent.
\<close>

theorem upgrader_v0_runs_first_step_only:
  "resourceKubernetesDeploymentStateUpgrader [''name''] 0
      \<lparr>Attributes = [''name'' \<mapsto> ''web'']\<rparr>
     = (\<lparr>Attributes = [''metadata.0.name'' \<mapsto> ''web'']\<rparr>, None) \<and>
   Attributes (fst (resourceKubernetesDeploymentStateUpgrader [''name''] 0
      \<lparr>Attributes = [''name'' \<mapsto> ''web'']\<rparr>)) ''spec.0.paused'' = None \<and>
   Attributes (fst (resourceKubernetesDeploymentStateUpgrader [''name''] 0
      \<lparr>Attributes = [''name'' \<mapsto> ''web'']\<rparr>)) ''spec.0.progress_deadline_seconds'' = None"
  by (simp add: resourceKubernetesDeploymentStateUpgrader_def Empty_def migrateStateV0toV1_def
      v0_visit_def HasPrefix_def)

text \<open>
  Claim C2 says that the entry point, called with the latest version 2, returns the
  record unchanged and without error. On a record that is not empty it returns an error:
\<close>

theorem upgrader_latest_version_nonempty_error:
  "snd (resourceKubernetesDeploymentStateUpgrader [''id''] 2
      \<lparr>Attributes = [''id'' \<mapsto> ''default/web'']\<rparr>) \<noteq> None"
  by (simp add: resourceKubernetesDeploymentStateUpgrader_def Empty_def)

text \<open>
  Claim C2, amended: called with version 2, the entry point returns the record
  unchanged; it returns no error when the record is empty, and the error
  \<open>Unexpected schema version: 2\<close> otherwise.
\<close>

theorem upgrader_latest_version:
  "resourceKubernetesDeploymentStateUpgrader ks 2 st =
     (st, if Empty st then None
          else Some (Errorf ''Unexpected schema version: %d'' [IntArg 2]))"
  by (simp add: resourceKubernetesDeploymentStateUpgrader_def)

text \<open>
  Claim C8: on an empty record (one with no attributes) the entry point returns the
  record unchanged and without error, for every version number, with or without a
  registered step.
\<close>

theorem upgrader_empty_record:
  "Empty st \<Longrightarrow> resourceKubernetesDeploymentStateUpgrader ks v st = (st, None)"
  by (simp add: resourceKubernetesDeploymentStateUpgrader_def)

theorem upgrader_empty_record_witness:
  "Empty \<lparr>Attributes = Map.empty\<rparr> \<and>
   resourceKubernetesDeploymentStateUpgrader [] 7 \<lparr>Attributes = Map.empty\<rparr>
     = (\<lparr>Attributes = Map.empty\<rparr>, None)"
  using upgrader_empty_record [of "\<lparr>Attributes = Map.empty\<rparr>" "[]" 7]
  by (simp add: Empty_def)

subsection \<open>The step from version 0 to version 1\<close>

text \<open>
  Claim C6: if the record holds a value at \<open>metadata.0.name\<close> before the step from
  version 0 to version 1, that value is there unchanged after the step, and the rename is
  skipped: every key that begins with \<open>name\<close> keeps its value. This holds in every order
  of iteration.
\<close>

theorem migrateStateV0toV1_no_clobber:
  assumes "Attributes st ''metadata.0.name'' = Some n"
  shows "Attributes (fst (migrateStateV0toV1 ks st)) ''metadata.0.name'' = Some n \<and>
         (\<forall>k. HasPrefix k ''name'' \<longrightarrow>
              Attributes (fst (migrateStateV0toV1 ks st)) k = Attributes st k)"
proof -
  obtain a' nt' where f: "fold v0_visit ks (Attributes st, Map.empty) = (a', nt')"
    by (cases "fold v0_visit ks (Attributes st, Map.empty)")
  have e: "\<forall>x. (Map.empty :: attrs) x \<noteq> None \<longrightarrow> HasPrefix x ''s''" by simp
  from fold_v0_visit_keep [OF assms e f]
  have r: "a' ''metadata.0.name'' = Some n" "\<forall>x. HasPrefix x ''name'' \<longrightarrow> a' x = Attributes st x"
    "\<forall>x. nt' x \<noteq> None \<longrightarrow> HasPrefix x ''s''"
    by auto
  have nt_none: "nt' x = None" if "HasPrefix x ''name'' \<or> x = ''metadata.0.name''" for x
    using r(3) s_not_name [of x] that by auto
  have res: "Attributes (fst (migrateStateV0toV1 ks st)) = a' ++ nt'"
    by (simp add: migrateStateV0toV1_def f)
  show ?thesis
    unfolding res using r(1) r(2) nt_none by (simp add: map_add_def)
qed

text \<open>
  An instance: \<open>name = web\<close> beside \<open>metadata.0.name = api\<close>.
\<close>

theorem migrateStateV0toV1_no_clobber_witness:
  "Attributes \<lparr>Attributes = [''name'' \<mapsto> ''web'', ''metadata.0.name'' \<mapsto> ''api'']\<rparr> ''metadata.0.name'' = Some ''api'' \<and>
   Attributes (fst (migrateStateV0toV1 [''name'', ''metadata.0.name'']
      \<lparr>Attributes = [''name'' \<mapsto> ''web'', ''metadata.0.name'' \<mapsto> ''api'']\<rparr>)) ''metadata.0.name'' = Some ''api'' \<and>
   Attributes (fst (migrateStateV0toV1 [''name'', ''metadata.0.name'']
      \<lparr>Attributes = [''name'' \<mapsto> ''web'', ''metadata.0.name'' \<mapsto> ''api'']\<rparr>)) ''name'' = Some ''web''"
proof -
  have h: "Attributes \<lparr>Attributes = [''name'' \<mapsto> ''web'', ''metadata.0.name'' \<mapsto> ''api'']\<rparr> ''metadata.0.name'' = Some ''api''"
    by simp
  have p: "HasPrefix ''name'' ''name''" by (simp add: HasPrefix_def)
  from migrateStateV0toV1_no_clobber [OF h, of "[''name'', ''metadata.0.name'']"] p h show ?thesis by simp
qed

text \<open>
  Claim C7 says that the value of \<open>name\<close> in a record at version 0 is, after the
  migration, at \<open>metadata.0.name\<close> only and never at both keys. A record that holds
  \<open>web\<close> at both keys before the migration holds it at both keys afterwards:
\<close>

theorem upgrader_v0_name_at_both_keys:
  "Attributes (fst (resourceKubernetesDeploymentStateUpgrader [''name'', ''metadata.0.name''] 0
      \<lparr>Attributes = [''name'' \<mapsto> ''web'', ''metadata.0.name'' \<mapsto> ''web'']\<rparr>)) ''name'' = Some ''web'' \<and>
   Attributes (fst (resourceKubernetesDeploymentStateUpgrader [''name'', ''metadata.0.name''] 0
      \<lparr>Attributes = [''name'' \<mapsto> ''web'', ''metadata.0.name'' \<mapsto> ''web'']\<rparr>)) ''metadata.0.name'' = Some ''web''"
  by (simp add: resourceKubernetesDeploymentStateUpgrader_def Empty_def migrateStateV0toV1_def
      v0_visit_def HasPrefix_def)

text \<open>
  Claim C7, amended: for a record at version 0 that holds a value at \<open>name\<close>, holds no
  value at \<open>metadata.0.name\<close> and has no other key that begins with \<open>name\<close>, the
  migration leaves no value at \<open>name\<close> and that value at \<open>metadata.0.name\<close>, in every
  order of iteration.
\<close>

theorem upgrader_v0_moves_name:
  assumes "Attributes st ''name'' = Some n"
      and "Attributes st ''metadata.0.name'' = None"
      and "range_order ks (Attributes st)"
      and "\<forall>k\<in>dom (Attributes st). HasPrefix k ''name'' \<longrightarrow> k = ''name''"
  shows "Attributes (fst (resourceKubernetesDeploymentStateUpgrader ks 0 st)) ''name'' = None \<and>
         Attributes (fst (resourceKubernetesDeploymentStateUpgrader ks 0 st)) ''metadata.0.name'' = Some n"
proof -
  obtain a' nt' where f: "fold v0_visit ks (Attributes st, Map.empty) = (a', nt')"
    by (cases "fold v0_visit ks (Attributes st, Map.empty)")
  have mem: "''name'' \<in> set ks"
    using assms(1) assms(3) by (auto simp: range_order_def)
  have only: "\<forall>k\<in>set ks. HasPrefix k ''name'' \<longrightarrow> k = ''name''"
    using assms(3) assms(4) by (simp add: range_order_def)
  have e: "\<forall>x. (Map.empty :: attrs) x \<noteq> None \<longrightarrow> x = ''metadata.0.name'' \<or> HasPrefix x ''s''"
    by simp
  from fold_v0_visit_pending [OF assms(1) assms(2) mem e only f]
  have r: "a' ''name'' = None" "nt' ''metadata.0.name'' = Some n" "nt' ''name'' = None"
    by auto
  have ne: "\<not> Empty st"
    using assms(1) by (auto simp: Empty_def)
  have res: "Attributes (fst (resourceKubernetesDeploymentStateUpgrader ks 0 st)) = a' ++ nt'"
    using ne by (simp add: resourceKubernetesDeploymentStateUpgrader_def migrateStateV0toV1_def f)
  show ?thesis
    unfolding res using r by (simp add: map_add_def)
qed

text \<open>
  An instance: \<open>name = web\<close> and \<open>id = default/web\<close>.
\<close>

theorem upgrader_v0_moves_name_witness:
  "Attributes (fst (resourceKubernetesDeploymentStateUpgrader [''name'', ''id''] 0
      \<lparr>Attributes = [''name'' \<mapsto> ''web'', ''id'' \<mapsto> ''default/web'']\<rparr>)) ''name'' = None \<and>
   Attributes (fst (resourceKubernetesDeploymentStateUpgrader [''name'', ''id''] 0
      \<lparr>Attributes = [''name'' \<mapsto> ''web'', ''id'' \<mapsto> ''default/web'']\<rparr>)) ''metadata.0.name'' = Some ''web''"
proof -
  let ?st = "\<lparr>Attributes = [''name'' \<mapsto> ''web'', ''id'' \<mapsto> ''default/web'']\<rparr>"
  have h1: "Attributes ?st ''name'' = Some ''web''" by simp
  have h2: "Attributes ?st ''metadata.0.name'' = None" by simp
  have h3: "range_order [''name'', ''id''] (Attributes ?st)"
    by (auto simp: range_order_def)
  have h4: "\<forall>k\<in>dom (Attributes ?st). HasPrefix k ''name'' \<longrightarrow> k = ''name''"
    by (simp add: HasPrefix_def)
  from upgrader_v0_moves_name [OF h1 h2 h3 h4] show ?thesis .
qed

section \<open>Properties of the lifecycle operations\<close>

subsection \<open>The calls issued by the convergence wait\<close>

lemma wait_tick_trace:
  "waitForDeploymentReplicasFunc conn ns name (w, tr) = (r, (w', tr')) \<Longrightarrow>
   tr' = tr @ [GetDeployment ns name]"
  by (auto simp: waitForDeploymentReplicasFunc_def callDeploymentsGet_def
      split: prod.splits sum.splits option.splits if_splits)

lemma Retry_from_trace:
  "Retry_from n (waitForDeploymentReplicasFunc conn ns name) l (w, tr) = (r, (w', tr')) \<Longrightarrow>
   \<exists>k. k \<le> n \<and> tr' = tr @ replicate k (GetDeployment ns name) \<and> (r = Returns None \<longrightarrow> 0 < k)"
proof (induction n arbitrary: l w tr)
  case 0
  then show ?case by auto
next
  case (Suc n)
  obtain r1 w1 tr1 where t: "waitForDeploymentReplicasFunc conn ns name (w, tr) = (r1, (w1, tr1))"
    by (metis prod.exhaust)
  have tr1: "tr1 = tr @ [GetDeployment ns name]"
    by (rule wait_tick_trace [OF t])
  show ?case
  proof (cases "\<exists>err. r1 = Returns (Some (RetryableError err))")
    case True
    then obtain err where r1: "r1 = Returns (Some (RetryableError err))" by blast
    have "Retry_from n (waitForDeploymentReplicasFunc conn ns name) (Some err) (w1, tr1) = (r, (w', tr'))"
      using Suc.prems t r1 by simp
    from Suc.IH [OF this] obtain k where
      k: "k \<le> n" "tr' = tr1 @ replicate k (GetDeployment ns name)" by blast
    have "tr' = tr @ replicate (Suc k) (GetDeployment ns name)"
      using k(2) tr1 by (simp add: replicate_app_Cons_same)
    with k(1) show ?thesis
      by (intro exI [of _ "Suc k"]) simp
  next
    case False
    then have "tr' = tr1"
      using Suc.prems t
      by (auto split: outcome.splits option.splits RetryError.splits)
    then have "tr' = tr @ replicate (Suc 0) (GetDeployment ns name)"
      using tr1 by simp
    then show ?thesis
      by (intro exI [of _ "Suc 0"]) simp
  qed
qed

lemma Retry_trace:
  "Retry n (waitForDeploymentReplicasFunc conn ns name) (w, tr) = (r, (w', tr')) \<Longrightarrow>
   \<exists>k. k \<le> n \<and> tr' = tr @ replicate k (GetDeployment ns name) \<and> (r = Returns None \<longrightarrow> 0 < k)"
  unfolding Retry_def by (rule Retry_from_trace)

lemma Retry_from_success:
  "Retry_from n f l s = (Returns None, s') \<Longrightarrow> \<exists>s0. f s0 = (Returns None, s')"
proof (induction n arbitrary: l s)
  case 0
  then show ?case by simp
next
  case (Suc n)
  obtain r s1 where t: "f s = (r, s1)"
    by (cases "f s")
  show ?case
  proof (cases "\<exists>err. r = Returns (Some (RetryableError err))")
    case True
    then obtain err where "r = Returns (Some (RetryableError err))" by blast
    with Suc.prems t have "Retry_from n f (Some err) s1 = (Returns None, s')" by simp
    from Suc.IH [OF this] show ?thesis .
  next
    case False
    with Suc.prems t have "f s = (Returns None, s')"
      by (auto split: outcome.splits option.splits RetryError.splits)
    then show ?thesis by blast
  qed
qed

lemma wait_tick_success:
  "waitForDeploymentReplicasFunc conn ns name (w, tr) = (Returns None, s') \<Longrightarrow>
   \<exists>dep w'. DeploymentsGet conn ns name w = (Inr dep, w') \<and>
            Replicas (Spec dep) = Some (StatusReplicas (Status dep))"
  by (auto simp: waitForDeploymentReplicasFunc_def callDeploymentsGet_def
      split: prod.splits sum.splits option.splits if_splits)

subsection \<open>The calls issued by Read, Delete and Update\<close>

lemma Retry_trace_polls:
  assumes "Retry n (waitForDeploymentReplicasFunc conn ns name) (w, tr) = (r, (w', tr'))"
  shows "\<exists>k. k \<le> n \<and> tr' = tr @ replicate k (GetDeployment ns name) \<and> (0 < n \<longrightarrow> 0 < k)"
proof (cases n)
  case 0
  with assms show ?thesis by (simp add: Retry_def)
next
  case (Suc m)
  obtain r1 w1 tr1 where t: "waitForDeploymentReplicasFunc conn ns name (w, tr) = (r1, (w1, tr1))"
    by (metis prod.exhaust)
  have tr1: "tr1 = tr @ [GetDeployment ns name]"
    by (rule wait_tick_trace [OF t])
  show ?thesis
  proof (cases "\<exists>err. r1 = Returns (Some (RetryableError err))")
    case True
    then obtain err where r1: "r1 = Returns (Some (RetryableError err))" by blast
    have "Retry_from m (waitForDeploymentReplicasFunc conn ns name) (Some err) (w1, tr1) = (r, (w', tr'))"
      using assms Suc t r1 by (simp add: Retry_def)
    from Retry_from_trace [OF this] obtain k where
      k: "k \<le> m" "tr' = tr1 @ replicate k (GetDeployment ns name)" by blast
    have "tr' = tr @ replicate (Suc k) (GetDeployment ns name)"
      using k(2) tr1 by (simp add: replicate_app_Cons_same)
    with k(1) Suc show ?thesis
      by (intro exI [of _ "Suc k"]) simp
  next
    case False
    then have "tr' = tr1"
      using assms Suc t
      by (auto simp: Retry_def split: outcome.splits option.splits RetryError.splits)
    then have "tr' = tr @ replicate (Suc 0) (GetDeployment ns name)"
      using tr1 by simp
    then show ?thesis
      using Suc by (intro exI [of _ "Suc 0"]) simp
  qed
qed

lemma Read_trace:
  "idParts h (ID d) = (ns, name, e) \<Longrightarrow>
   snd (snd (snd (resourceKubernetesDeploymentRead h conn d (w, tr)))) = tr @ [GetDeployment ns name]"
  by (auto simp: resourceKubernetesDeploymentRead_def callDeploymentsGet_def Let_def
      split: prod.splits sum.splits option.splits)

lemma Delete_trace:
  assumes ip: "idParts h (ID d) = (ns, name, e)"
      and mj: "MarshalJSON h [ReplaceOperation ''/spec/replicas'' (IntValue 0)] = (data, None)"
  shows "\<exists>k tail.
     snd (snd (snd (resourceKubernetesDeploymentDelete h conn d (w, tr))))
       = tr @ PatchDeployment ns name JSONPatchType data # replicate k (GetDeployment ns name) @ tail \<and>
     (tail = [] \<or>
      tail = [DeleteDeployment ns name \<lparr>PropagationPolicy = Some DeletePropagationForeground\<rparr>]) \<and>
     ((\<exists>out. fst (DeploymentsPatch conn ns name JSONPatchType data w) = Inr out) \<and>
      0 < Timeout h ''delete'' d \<longrightarrow> 0 < k)"
proof -
  let ?P = "PatchDeployment ns name JSONPatchType data"
  let ?G = "GetDeployment ns name"
  let ?fg = "\<lparr>PropagationPolicy = Some DeletePropagationForeground\<rparr>"
  let ?D = "DeleteDeployment ns name ?fg"
  let ?n = "Timeout h ''delete'' d"
  let ?T = "snd (snd (snd (resourceKubernetesDeploymentDelete h conn d (w, tr))))"
  obtain pr w1 where p: "DeploymentsPatch conn ns name JSONPatchType data w = (pr, w1)"
    by (cases "DeploymentsPatch conn ns name JSONPatchType data w")
  have cp: "callDeploymentsPatch conn ns name JSONPatchType data (w, tr) = (pr, (w1, tr @ [?P]))"
    by (simp add: callDeploymentsPatch_def p)
  show ?thesis
  proof (cases pr)
    case (Inl err)
    then have "?T = tr @ [?P]"
      using ip mj cp by (simp add: resourceKubernetesDeploymentDelete_def)
    then show ?thesis
      using p Inl by (intro exI [of _ 0] exI [of _ "[]"]) simp
  next
    case (Inr out)
    obtain r0 v2 t2 where
      rt: "Retry ?n (waitForDeploymentReplicasFunc conn ns name) (w1, tr @ [?P]) = (r0, (v2, t2))"
      by (metis prod.exhaust)
    from Retry_trace_polls [OF rt] obtain k where
      k: "k \<le> ?n" "t2 = (tr @ [?P]) @ replicate k ?G" "0 < ?n \<longrightarrow> 0 < k"
      by (elim exE conjE) (rule that; assumption)
    show ?thesis
    proof (cases "r0 = Returns None")
      case False
      then have "?T = t2"
        using ip mj cp Inr rt
        by (auto simp: resourceKubernetesDeploymentDelete_def
            split: outcome.splits option.splits)
      then show ?thesis
        using k(2) k(3) by (intro exI [of _ k] exI [of _ "[]"]) simp
    next
      case True
      obtain dr v3 where dl: "DeploymentsDelete conn ns name ?fg v2 = (dr, v3)"
        by (cases "DeploymentsDelete conn ns name ?fg v2")
      have cd: "callDeploymentsDelete conn ns name ?fg (v2, t2) = (dr, (v3, t2 @ [?D]))"
        by (simp add: callDeploymentsDelete_def dl)
      have "?T = t2 @ [?D]"
        using ip mj cp Inr rt True cd
        by (auto simp: resourceKubernetesDeploymentDelete_def split: option.splits)
      then show ?thesis
        using k(2) k(3) by (intro exI [of _ k] exI [of _ "[?D]"]) simp
    qed
  qed
qed

lemma Update_trace:
  assumes ip: "idParts h (ID d) = (ns, name, e)"
      and ex: "HasChange h ''spec'' d \<longrightarrow> snd (expandDeploymentSpec h (dGet h ''spec'' d)) = None"
      and mj: "MarshalJSON h
                 (patchMetadata h ''metadata.0.'' ''/metadata/'' d @
                  (if HasChange h ''spec'' d
                   then [ReplaceOperation ''/spec''
                           (SpecValue (fst (expandDeploymentSpec h (dGet h ''spec'' d))))]
                   else [])) = (data, None)"
  shows "\<exists>k.
     snd (snd (snd (resourceKubernetesDeploymentUpdate h conn d (w, tr))))
       = tr @ PatchDeployment ns name JSONPatchType data # replicate k (GetDeployment ns name) \<and>
     ((\<exists>out. fst (DeploymentsPatch conn ns name JSONPatchType data w) = Inr out) \<and>
      0 < Timeout h ''update'' d \<longrightarrow> 0 < k)"
proof -
  let ?P = "PatchDeployment ns name JSONPatchType data"
  let ?G = "GetDeployment ns name"
  let ?n = "Timeout h ''update'' d"
  let ?T = "snd (snd (snd (resourceKubernetesDeploymentUpdate h conn d (w, tr))))"
  obtain pr w1 where p: "DeploymentsPatch conn ns name JSONPatchType data w = (pr, w1)"
    by (cases "DeploymentsPatch conn ns name JSONPatchType data w")
  have cp: "callDeploymentsPatch conn ns name JSONPatchType data (w, tr) = (pr, (w1, tr @ [?P]))"
    by (simp add: callDeploymentsPatch_def p)
  obtain r0 v2 t2 where
    rt: "Retry ?n (waitForDeploymentReplicasFunc conn ns name) (w1, tr @ [?P]) = (r0, (v2, t2))"
    by (metis prod.exhaust)
  from Retry_trace_polls [OF rt] obtain k where
    k: "k \<le> ?n" "t2 = (tr @ [?P]) @ replicate k ?G" "0 < ?n \<longrightarrow> 0 < k"
    by (elim exE conjE) (rule that; assumption)
  have rd: "snd (snd (snd (resourceKubernetesDeploymentRead h conn d (v2, t2)))) = t2 @ [?G]"
    by (rule Read_trace [OF ip])
  let ?ops = "patchMetadata h ''metadata.0.'' ''/metadata/'' d @
                  (if HasChange h ''spec'' d
                   then [ReplaceOperation ''/spec''
                           (SpecValue (fst (expandDeploymentSpec h (dGet h ''spec'' d))))]
                   else [])"
  have changed: "(if HasChange h ''spec'' d then
                  (case expandDeploymentSpec h (dGet h ''spec'' d) of
                     (spec, Some err) \<Rightarrow> Inl err
                   | (spec, None) \<Rightarrow>
                       Inr (patchMetadata h ''metadata.0.'' ''/metadata/'' d
                            @ [ReplaceOperation ''/spec'' (SpecValue spec)]))
                else Inr (patchMetadata h ''metadata.0.'' ''/metadata/'' d)) = Inr ?ops"
    using ex by (cases "expandDeploymentSpec h (dGet h ''spec'' d)") auto
  obtain e1 d1 v3 t3 where
    rd1: "resourceKubernetesDeploymentRead h conn d (v2, t2) = (e1, d1, (v3, t3))"
    by (metis prod.exhaust)
  have t3: "t3 = t2 @ [?G]"
    using rd rd1 by simp
  have U: "resourceKubernetesDeploymentUpdate h conn d (w, tr) =
             (case pr of
                Inl err \<Rightarrow>
                  (Returns (Some (Errorf ''Failed to update deployment: %s'' [ErrArg err])),
                   d, (w1, tr @ [?P]))
              | Inr out \<Rightarrow>
                  (case r0 of
                     Panics \<Rightarrow> (Panics, d, (v2, t2))
                   | Returns (Some err) \<Rightarrow> (Returns (Some err), d, (v2, t2))
                   | Returns None \<Rightarrow> (Returns e1, d1, (v3, t3))))"
    unfolding resourceKubernetesDeploymentUpdate_def Let_def ip prod.case changed sum.case mj cp
    by (simp add: rt rd1 split: sum.splits outcome.splits option.splits)
  have T: "?T = (case pr of Inl err \<Rightarrow> tr @ [?P]
                 | Inr out \<Rightarrow> if r0 = Returns None then t2 @ [?G] else t2)"
    unfolding U using t3
    by (simp split: sum.splits outcome.splits option.splits)
  show ?thesis
  proof (cases pr)
    case (Inl err)
    with T p show ?thesis by (intro exI [of _ 0]) simp
  next
    case (Inr out)
    show ?thesis
    proof (cases "r0 = Returns None")
      case True
      with T Inr k(2) have "?T = tr @ ?P # replicate (Suc k) ?G"
        by (simp add: replicate_append_same)
      then show ?thesis by (intro exI [of _ "Suc k"]) simp
    next
      case False
      with T Inr k(2) k(3) show ?thesis by (intro exI [of _ k]) simp
    qed
  qed
qed

subsection \<open>Parse errors of the identity\<close>

lemma Read_ignores_parse_error:
  assumes "\<forall>i. fst (p i) = fst (idParts h i) \<and> fst (snd (p i)) = fst (snd (idParts h i))"
  shows "resourceKubernetesDeploymentRead (h\<lparr>idParts := p\<rparr>) conn d s
           = resourceKubernetesDeploymentRead h conn d s"
proof -
  obtain ns name e where a: "idParts h (ID d) = (ns, name, e)"
    by (cases "idParts h (ID d)") auto
  have "fst (p (ID d)) = ns" "fst (snd (p (ID d))) = name"
    using assms a by simp_all
  then obtain e' where b: "p (ID d) = (ns, name, e')"
    by (cases "p (ID d)") auto
  show ?thesis
    by (simp add: resourceKubernetesDeploymentRead_def a b Let_def
        cong: prod.case_cong sum.case_cong option.case_cong)
qed

lemma Exists_ignores_parse_error:
  assumes "\<forall>i. fst (p i) = fst (idParts h i) \<and> fst (snd (p i)) = fst (snd (idParts h i))"
  shows "resourceKubernetesDeploymentExists (h\<lparr>idParts := p\<rparr>) conn d s
           = resourceKubernetesDeploymentExists h conn d s"
proof -
  obtain ns name e where a: "idParts h (ID d) = (ns, name, e)"
    by (cases "idParts h (ID d)") auto
  have "fst (p (ID d)) = ns" "fst (snd (p (ID d))) = name"
    using assms a by simp_all
  then obtain e' where b: "p (ID d) = (ns, name, e')"
    by (cases "p (ID d)") auto
  show ?thesis
    by (simp add: resourceKubernetesDeploymentExists_def a b
        cong: prod.case_cong sum.case_cong option.case_cong)
qed

lemma Delete_ignores_parse_error:
  assumes "\<forall>i. fst (p i) = fst (idParts h i) \<and> fst (snd (p i)) = fst (snd (idParts h i))"
  shows "resourceKubernetesDeploymentDelete (h\<lparr>idParts := p\<rparr>) conn d s
           = resourceKubernetesDeploymentDelete h conn d s"
proof -
  obtain ns name e where a: "idParts h (ID d) = (ns, name, e)"
    by (cases "idParts h (ID d)") auto
  have "fst (p (ID d)) = ns" "fst (snd (p (ID d))) = name"
    using assms a by simp_all
  then obtain e' where b: "p (ID d) = (ns, name, e')"
    by (cases "p (ID d)") auto
  show ?thesis
    by (simp add: resourceKubernetesDeploymentDelete_def a b
        cong: prod.case_cong sum.case_cong option.case_cong outcome.case_cong)
qed

lemma Update_ignores_parse_error:
  assumes "\<forall>i. fst (p i) = fst (idParts h i) \<and> fst (snd (p i)) = fst (snd (idParts h i))"
  shows "resourceKubernetesDeploymentUpdate (h\<lparr>idParts := p\<rparr>) conn d s
           = resourceKubernetesDeploymentUpdate h conn d s"
proof -
  obtain ns name e where a: "idParts h (ID d) = (ns, name, e)"
    by (cases "idParts h (ID d)") auto
  have "fst (p (ID d)) = ns" "fst (snd (p (ID d))) = name"
    using assms a by simp_all
  then obtain e' where b: "p (ID d) = (ns, name, e')"
    by (cases "p (ID d)") auto
  show ?thesis
    by (simp add: resourceKubernetesDeploymentUpdate_def a b Let_def
        Read_ignores_parse_error [OF assms]
        cong: prod.case_cong sum.case_cong option.case_cong outcome.case_cong if_cong)
qed

subsection \<open>The claims on the lifecycle operations\<close>

text \<open>
  Claim C3: the existence check returns \<open>(false, nil)\<close> when the external Get fails
  with a structured status error of code 404, \<open>(true, err)\<close> when Get fails with any
  other error \<open>err\<close>, and \<open>(true, nil)\<close> when Get succeeds. This holds for the
  deployment with the namespace and name that \<open>idParts\<close> returns, and for the role
  whenever \<open>idParts\<close> returns no error (otherwise the role's check does not call Get).
\<close>

theorem exists_semantics:
  assumes "idParts h (ID d) = (ns, name, e)"
  shows "(DeploymentsGet conn ns name w = (Inl (StatusError 404), w') \<longrightarrow>
            resourceKubernetesDeploymentExists h conn d (w, tr)
              = ((False, None), (w', tr @ [GetDeployment ns name]))) \<and>
         (DeploymentsGet conn ns name w = (Inl err, w') \<and> err \<noteq> StatusError 404 \<longrightarrow>
            resourceKubernetesDeploymentExists h conn d (w, tr)
              = ((True, Some err), (w', tr @ [GetDeployment ns name]))) \<and>
         (DeploymentsGet conn ns name w = (Inr dep, w') \<longrightarrow>
            resourceKubernetesDeploymentExists h conn d (w, tr)
              = ((True, None), (w', tr @ [GetDeployment ns name]))) \<and>
         (e = None \<and> RolesGet conn ns name w = (Some (StatusError 404), w') \<longrightarrow>
            resourceKubernetesRoleExists h d conn (w, tr)
              = ((False, None), (w', tr @ [GetRole ns name]))) \<and>
         (e = None \<and> RolesGet conn ns name w = (Some err, w') \<and> err \<noteq> StatusError 404 \<longrightarrow>
            resourceKubernetesRoleExists h d conn (w, tr)
              = ((True, Some err), (w', tr @ [GetRole ns name]))) \<and>
         (e = None \<and> RolesGet conn ns name w = (None, w') \<longrightarrow>
            resourceKubernetesRoleExists h d conn (w, tr)
              = ((True, None), (w', tr @ [GetRole ns name])))"
  using assms
  by (auto simp: resourceKubernetesDeploymentExists_def resourceKubernetesRoleExists_def
      callDeploymentsGet_def callRolesGet_def split: error.splits)

text \<open>
  Instances on the scripted API: a 404 status error, another error, and success, for the
  deployment and for the role.
\<close>

theorem exists_semantics_witness:
  "resourceKubernetesDeploymentExists scripted_helpers scripted_conn
     \<lparr>ID = ''default/web'', Config = ()\<rparr> ([Inl (StatusError 404)], [])
     = ((False, None), ([], [GetDeployment ''default'' ''web''])) \<and>
   resourceKubernetesDeploymentExists scripted_helpers scripted_conn
     \<lparr>ID = ''default/web'', Config = ()\<rparr> ([Inl (OtherError ''i/o timeout'')], [])
     = ((True, Some (OtherError ''i/o timeout'')), ([], [GetDeployment ''default'' ''web''])) \<and>
   resourceKubernetesDeploymentExists scripted_helpers scripted_conn
     \<lparr>ID = ''default/web'', Config = ()\<rparr> ([Inr (deployment_with 1 1)], [])
     = ((True, None), ([], [GetDeployment ''default'' ''web''])) \<and>
   resourceKubernetesRoleExists scripted_helpers
     \<lparr>ID = ''default/web'', Config = ()\<rparr> scripted_conn ([Inl (StatusError 404)], [])
     = ((False, None), ([], [GetRole ''default'' ''web''])) \<and>
   resourceKubernetesRoleExists scripted_helpers
     \<lparr>ID = ''default/web'', Config = ()\<rparr> scripted_conn ([Inl (OtherError ''i/o timeout'')], [])
     = ((True, Some (OtherError ''i/o timeout'')), ([], [GetRole ''default'' ''web''])) \<and>
   resourceKubernetesRoleExists scripted_helpers
     \<lparr>ID = ''default/web'', Config = ()\<rparr> scripted_conn ([], [])
     = ((True, None), ([], [GetRole ''default'' ''web'']))"
proof -
  let ?d = "\<lparr>ID = ''default/web'', Config = ()\<rparr>"
  have ip: "idParts scripted_helpers (ID ?d) = (''default'', ''web'', None)"
    by (simp add: scripted_helpers_def)
  note t = exists_semantics [OF ip, where conn = scripted_conn and tr = "[]"]
  have a: "resourceKubernetesDeploymentExists scripted_helpers scripted_conn ?d
             ([Inl (StatusError 404)], [])
           = ((False, None), ([], [GetDeployment ''default'' ''web'']))"
    using t [where w = "[Inl (StatusError 404)]" and w' = "[]"]
    by (simp add: scripted_conn_def)
  have b: "resourceKubernetesDeploymentExists scripted_helpers scripted_conn ?d
             ([Inl (OtherError ''i/o timeout'')], [])
           = ((True, Some (OtherError ''i/o timeout'')), ([], [GetDeployment ''default'' ''web'']))"
    using t [where w = "[Inl (OtherError ''i/o timeout'')]" and w' = "[]"
               and err = "OtherError ''i/o timeout''"]
    by (simp add: scripted_conn_def)
  have c: "resourceKubernetesDeploymentExists scripted_helpers scripted_conn ?d
             ([Inr (deployment_with 1 1)], [])
           = ((True, None), ([], [GetDeployment ''default'' ''web'']))"
    using t [where w = "[Inr (deployment_with 1 1)]" and w' = "[]"
               and dep = "deployment_with 1 1"]
    by (simp add: scripted_conn_def)
  have d: "resourceKubernetesRoleExists scripted_helpers ?d scripted_conn
             ([Inl (StatusError 404)], [])
           = ((False, None), ([], [GetRole ''default'' ''web'']))"
    using t [where w = "[Inl (StatusError 404)]" and w' = "[]"]
    by (simp add: scripted_conn_def)
  have e: "resourceKubernetesRoleExists scripted_helpers ?d scripted_conn
             ([Inl (OtherError ''i/o timeout'')], [])
           = ((True, Some (OtherError ''i/o timeout'')), ([], [GetRole ''default'' ''web'']))"
    using t [where w = "[Inl (OtherError ''i/o timeout'')]" and w' = "[]"
               and err = "OtherError ''i/o timeout''"]
    by (simp add: scripted_conn_def)
  have f: "resourceKubernetesRoleExists scripted_helpers ?d scripted_conn ([], [])
           = ((True, None), ([], [GetRole ''default'' ''web'']))"
    using t [where w = "[]" and w' = "[]"]
    by (simp add: scripted_conn_def)
  from a b c d e f show ?thesis by simp
qed



text \<open>
  Claim C5: the calls that Delete issues are, in this order, the patch that replaces
  \<open>/spec/replicas\<close> by 0, the status fetches of the convergence wait, and the delete
  with foreground propagation; a run stops after any prefix of this sequence. The delete
  call is issued only after the wait has succeeded, and the identity is cleared exactly
  when every step has succeeded. An error at any step ends the operation with that
  error, the identity kept and no later call issued: an error of the serialisation
  before any call, an error of the patch after the patch alone, an error (or a timeout,
  or a panic) of the wait without a delete call, and an error of the delete call itself
  without clearing the identity.
\<close>

theorem delete_call_order:
  assumes ip: "idParts h (ID d) = (ns, name, e)"
      and mj: "MarshalJSON h [ReplaceOperation ''/spec/replicas'' (IntValue 0)] = (data, merr)"
      and run: "resourceKubernetesDeploymentDelete h conn d (w, []) = (res, d', (w', tr))"
  shows "\<exists>k. k \<le> Timeout h ''delete'' d \<and>
     (tr = [] \<or>
      tr = PatchDeployment ns name JSONPatchType data # replicate k (GetDeployment ns name) \<or>
      tr = PatchDeployment ns name JSONPatchType data # replicate k (GetDeployment ns name)
             @ [DeleteDeployment ns name \<lparr>PropagationPolicy = Some DeletePropagationForeground\<rparr>]) \<and>
     (DeleteDeployment ns name \<lparr>PropagationPolicy = Some DeletePropagationForeground\<rparr> \<in> set tr \<longrightarrow>
        0 < k \<and> merr = None \<and>
        (\<exists>out w1 s2.
           DeploymentsPatch conn ns name JSONPatchType data w = (Inr out, w1) \<and>
           Retry (Timeout h ''delete'' d) (waitForDeploymentReplicasFunc conn ns name)
             (w1, [PatchDeployment ns name JSONPatchType data]) = (Returns None, s2)) \<and>
        tr = PatchDeployment ns name JSONPatchType data # replicate k (GetDeployment ns name)
               @ [DeleteDeployment ns name \<lparr>PropagationPolicy = Some DeletePropagationForeground\<rparr>]) \<and>
     (res = Returns None \<longrightarrow>
        d' = d\<lparr>ID := []\<rparr> \<and>
        tr = PatchDeployment ns name JSONPatchType data # replicate k (GetDeployment ns name)
               @ [DeleteDeployment ns name \<lparr>PropagationPolicy = Some DeletePropagationForeground\<rparr>]) \<and>
     (res \<noteq> Returns None \<longrightarrow> d' = d) \<and>
     (merr \<noteq> None \<longrightarrow> res = Returns merr \<and> d' = d \<and> w' = w \<and> tr = []) \<and>
     (\<forall>err w1. merr = None \<and> DeploymentsPatch conn ns name JSONPatchType data w = (Inl err, w1) \<longrightarrow>
        res = Returns (Some err) \<and> d' = d \<and> w' = w1 \<and>
        tr = [PatchDeployment ns name JSONPatchType data]) \<and>
     (merr = None \<and> DeploymentsPatch conn ns name JSONPatchType data w = (Inr pout, pw) \<and>
      Retry (Timeout h ''delete'' d) (waitForDeploymentReplicasFunc conn ns name)
        (pw, [PatchDeployment ns name JSONPatchType data]) = (r, s2) \<and>
      r \<noteq> Returns None \<longrightarrow>
        res = r \<and> d' = d \<and> (w', tr) = s2 \<and>
        DeleteDeployment ns name \<lparr>PropagationPolicy = Some DeletePropagationForeground\<rparr> \<notin> set tr) \<and>
     (merr = None \<and> DeploymentsPatch conn ns name JSONPatchType data w = (Inr pout, pw) \<and>
      Retry (Timeout h ''delete'' d) (waitForDeploymentReplicasFunc conn ns name)
        (pw, [PatchDeployment ns name JSONPatchType data]) = (Returns None, (w2, tr2)) \<and>
      DeploymentsDelete conn ns name \<lparr>PropagationPolicy = Some DeletePropagationForeground\<rparr> w2
        = (Some derr, w3) \<longrightarrow>
        res = Returns (Some derr) \<and> d' = d \<and> w' = w3 \<and>
        tr = tr2 @ [DeleteDeployment ns name \<lparr>PropagationPolicy = Some DeletePropagationForeground\<rparr>]) \<and>
     (merr = None \<and> DeploymentsPatch conn ns name JSONPatchType data w = (Inr pout, pw) \<and>
      Retry (Timeout h ''delete'' d) (waitForDeploymentReplicasFunc conn ns name)
        (pw, [PatchDeployment ns name JSONPatchType data]) = (Returns None, (w2, tr2)) \<and>
      DeploymentsDelete conn ns name \<lparr>PropagationPolicy = Some DeletePropagationForeground\<rparr> w2
        = (None, w3) \<longrightarrow>
        res = Returns None \<and> d' = d\<lparr>ID := []\<rparr> \<and> w' = w3 \<and>
        tr = tr2 @ [DeleteDeployment ns name \<lparr>PropagationPolicy = Some DeletePropagationForeground\<rparr>])"
proof -
  let ?P = "PatchDeployment ns name JSONPatchType data"
  let ?G = "GetDeployment ns name"
  let ?fg = "\<lparr>PropagationPolicy = Some DeletePropagationForeground\<rparr>"
  let ?D = "DeleteDeployment ns name ?fg"
  let ?n = "Timeout h ''delete'' d"
  show ?thesis
  proof (cases merr)
    case (Some err)
    then have "res = Returns (Some err) \<and> d' = d \<and> w' = w \<and> tr = []"
      using run ip mj by (simp add: resourceKubernetesDeploymentDelete_def)
    then show ?thesis
      using Some by (intro exI [of _ 0]) simp
  next
    case None
    obtain pr w1 where p: "DeploymentsPatch conn ns name JSONPatchType data w = (pr, w1)"
      by (cases "DeploymentsPatch conn ns name JSONPatchType data w")
    have cp: "callDeploymentsPatch conn ns name JSONPatchType data (w, []) = (pr, (w1, [?P]))"
      by (simp add: callDeploymentsPatch_def p)
    show ?thesis
    proof (cases pr)
      case (Inl err)
      then have "res = Returns (Some err) \<and> d' = d \<and> w' = w1 \<and> tr = [?P]"
        using run ip mj None cp by (simp add: resourceKubernetesDeploymentDelete_def)
      then show ?thesis
        using None p Inl by (intro exI [of _ 0]) simp
    next
      case (Inr out)
      obtain r0 v2 t2 where
        rt: "Retry ?n (waitForDeploymentReplicasFunc conn ns name) (w1, [?P]) = (r0, (v2, t2))"
        by (metis prod.exhaust)
      from Retry_trace [OF rt] obtain k where
        k: "k \<le> ?n" "t2 = [?P] @ replicate k ?G" "r0 = Returns None \<longrightarrow> 0 < k"
        by blast
      show ?thesis
      proof (cases "r0 = Returns None")
        case False
        then have "res = r0 \<and> d' = d \<and> w' = v2 \<and> tr = t2"
          using run ip mj None cp Inr rt
          by (auto simp: resourceKubernetesDeploymentDelete_def
              split: outcome.splits option.splits)
        then show ?thesis
          using None p Inr False k(1) k(2) rt by (intro exI [of _ k]) auto
      next
        case True
        obtain dr v3 where dl: "DeploymentsDelete conn ns name ?fg v2 = (dr, v3)"
          by (cases "DeploymentsDelete conn ns name ?fg v2")
        have cd: "callDeploymentsDelete conn ns name ?fg (v2, t2) = (dr, (v3, t2 @ [?D]))"
          by (simp add: callDeploymentsDelete_def dl)
        have r: "res = Returns dr \<and> tr = t2 @ [?D] \<and> w' = v3 \<and>
                 d' = (if dr = None then d\<lparr>ID := []\<rparr> else d)"
          using run ip mj None cp Inr rt True cd
          by (auto simp: resourceKubernetesDeploymentDelete_def split: option.splits)
        have kpos: "0 < k" using k(3) True by simp
        have ok: "\<exists>out w1 s2.
           DeploymentsPatch conn ns name JSONPatchType data w = (Inr out, w1) \<and>
           Retry ?n (waitForDeploymentReplicasFunc conn ns name) (w1, [?P]) = (Returns None, s2)"
          using p Inr rt True by blast
        show ?thesis
          using None r k(1) k(2) kpos ok p Inr rt True dl by (intro exI [of _ k]) auto
      qed
    qed
  qed
qed

text \<open>
  Instances on the scripted API: a run in which the observed count goes from 2 to 0 in
  three fetches, a run in which the delete call is refused, and a run in which the status
  fetch of the wait fails.
\<close>

lemma scripted_delete_run:
  "resourceKubernetesDeploymentDelete scripted_helpers scripted_conn
     \<lparr>ID = ''default/web'', Config = ()\<rparr>
     ([Inr (deployment_with 0 2), Inr (deployment_with 0 1), Inr (deployment_with 0 0)], [])
   = (Returns None, \<lparr>ID = [], Config = ()\<rparr>,
      ([], [PatchDeployment ''default'' ''web'' JSONPatchType ''json'',
            GetDeployment ''default'' ''web'',
            GetDeployment ''default'' ''web'',
            GetDeployment ''default'' ''web'',
            DeleteDeployment ''default'' ''web''
              \<lparr>PropagationPolicy = Some DeletePropagationForeground\<rparr>]))"
  by (simp add: resourceKubernetesDeploymentDelete_def scripted_helpers_def scripted_conn_def
      callDeploymentsPatch_def callDeploymentsGet_def callDeploymentsDelete_def
      waitForDeploymentReplicasFunc_def Retry_def deployment_with_def)

theorem delete_call_order_witness:
  "resourceKubernetesDeploymentDelete scripted_helpers scripted_conn
     \<lparr>ID = ''default/web'', Config = ()\<rparr>
     ([Inr (deployment_with 0 2), Inr (deployment_with 0 1), Inr (deployment_with 0 0)], [])
   = (Returns None, \<lparr>ID = [], Config = ()\<rparr>,
      ([], [PatchDeployment ''default'' ''web'' JSONPatchType ''json'',
            GetDeployment ''default'' ''web'',
            GetDeployment ''default'' ''web'',
            GetDeployment ''default'' ''web'',
            DeleteDeployment ''default'' ''web''
              \<lparr>PropagationPolicy = Some DeletePropagationForeground\<rparr>])) \<and>
   (\<exists>k. 0 < k \<and> k \<le> 3 \<and>
      [PatchDeployment ''default'' ''web'' JSONPatchType ''json'',
       GetDeployment ''default'' ''web'',
       GetDeployment ''default'' ''web'',
       GetDeployment ''default'' ''web'',
       DeleteDeployment ''default'' ''web''
         \<lparr>PropagationPolicy = Some DeletePropagationForeground\<rparr>]
      = PatchDeployment ''default'' ''web'' JSONPatchType ''json''
          # replicate k (GetDeployment ''default'' ''web'')
          @ [DeleteDeployment ''default'' ''web''
               \<lparr>PropagationPolicy = Some DeletePropagationForeground\<rparr>]) \<and>
   resourceKubernetesDeploymentDelete scripted_helpers
     (scripted_conn\<lparr>DeploymentsDelete :=
        (\<lambda>ns name opts w. (Some (OtherError ''forbidden''), w))\<rparr>)
     \<lparr>ID = ''default/web'', Config = ()\<rparr> ([Inr (deployment_with 0 0)], [])
   = (Returns (Some (OtherError ''forbidden'')), \<lparr>ID = ''default/web'', Config = ()\<rparr>,
      ([], [PatchDeployment ''default'' ''web'' JSONPatchType ''json'',
            GetDeployment ''default'' ''web'',
            DeleteDeployment ''default'' ''web''
              \<lparr>PropagationPolicy = Some DeletePropagationForeground\<rparr>])) \<and>
   resourceKubernetesDeploymentDelete scripted_helpers scripted_conn
     \<lparr>ID = ''default/web'', Config = ()\<rparr> ([Inl (OtherError ''i/o timeout'')], [])
   = (Returns (Some (OtherError ''i/o timeout'')), \<lparr>ID = ''default/web'', Config = ()\<rparr>,
      ([], [PatchDeployment ''default'' ''web'' JSONPatchType ''json'',
            GetDeployment ''default'' ''web'']))"
proof -
  let ?d = "\<lparr>ID = ''default/web'', Config = ()\<rparr>"
  let ?P = "PatchDeployment ''default'' ''web'' JSONPatchType ''json''"
  let ?G = "GetDeployment ''default'' ''web''"
  let ?fg = "\<lparr>PropagationPolicy = Some DeletePropagationForeground\<rparr>"
  let ?D = "DeleteDeployment ''default'' ''web'' ?fg"
  let ?conn2 = "scripted_conn\<lparr>DeploymentsDelete :=
        (\<lambda>ns name opts w. (Some (OtherError ''forbidden''), w))\<rparr>"
  have ip: "idParts scripted_helpers (ID ?d) = (''default'', ''web'', None)"
    by (simp add: scripted_helpers_def)
  have mj: "MarshalJSON scripted_helpers [ReplaceOperation ''/spec/replicas'' (IntValue 0)]
              = (''json'', None)"
    by (simp add: scripted_helpers_def)
  have tm: "Timeout scripted_helpers ''delete'' ?d = Suc (Suc (Suc 0))"
    by (simp add: scripted_helpers_def)
  \<comment> \<open>every step succeeds\<close>
  from delete_call_order [OF ip mj scripted_delete_run, where pout = "deployment_with 0 0" and pw = "[]"
              and r = Panics and ?s2.0 = "([], [])" and ?w2.0 = "[]" and ?tr2.0 = "[]"
              and derr = "OtherError []" and ?w3.0 = "[]"]
  obtain k where
    "k \<le> Timeout scripted_helpers ''delete'' ?d"
    "0 < k"
    "[?P, ?G, ?G, ?G, ?D] = ?P # replicate k ?G @ [?D]"
    by auto
  then have a: "\<exists>k. 0 < k \<and> k \<le> 3 \<and> [?P, ?G, ?G, ?G, ?D] = ?P # replicate k ?G @ [?D]"
    using tm by auto
  \<comment> \<open>the delete call fails\<close>
  let ?X = "resourceKubernetesDeploymentDelete scripted_helpers ?conn2 ?d
              ([Inr (deployment_with 0 0)], [])"
  have runX: "?X = (fst ?X, fst (snd ?X), (fst (snd (snd ?X)), snd (snd (snd ?X))))"
    by simp
  have pX: "DeploymentsPatch ?conn2 ''default'' ''web'' JSONPatchType ''json''
              [Inr (deployment_with 0 0)] = (Inr (deployment_with 0 0), [Inr (deployment_with 0 0)])"
    by (simp add: scripted_conn_def)
  have rX: "Retry (Timeout scripted_helpers ''delete'' ?d)
              (waitForDeploymentReplicasFunc ?conn2 ''default'' ''web'')
              ([Inr (deployment_with 0 0)], [?P]) = (Returns None, ([], [?P, ?G]))"
    by (simp add: tm Retry_def waitForDeploymentReplicasFunc_def callDeploymentsGet_def
        scripted_conn_def deployment_with_def)
  have dX: "DeploymentsDelete ?conn2 ''default'' ''web'' ?fg [] = (Some (OtherError ''forbidden''), [])"
    by simp
  from delete_call_order [OF ip mj runX, where pout = "deployment_with 0 0" and pw = "[Inr (deployment_with 0 0)]"
              and ?w2.0 = "[]" and ?tr2.0 = "[?P, ?G]" and derr = "OtherError ''forbidden''"
              and ?w3.0 = "[]" and r = Panics and ?s2.0 = "([], [])"]
    pX rX dX
  have "fst ?X = Returns (Some (OtherError ''forbidden'')) \<and> fst (snd ?X) = ?d \<and>
        fst (snd (snd ?X)) = [] \<and> snd (snd (snd ?X)) = [?P, ?G, ?D]"
    by auto
  then have b: "?X = (Returns (Some (OtherError ''forbidden'')), ?d, ([], [?P, ?G, ?D]))"
    by (metis prod.collapse)
  \<comment> \<open>the wait fails\<close>
  let ?Y = "resourceKubernetesDeploymentDelete scripted_helpers scripted_conn ?d
              ([Inl (OtherError ''i/o timeout'')], [])"
  have runY: "?Y = (fst ?Y, fst (snd ?Y), (fst (snd (snd ?Y)), snd (snd (snd ?Y))))"
    by simp
  have pY: "DeploymentsPatch scripted_conn ''default'' ''web'' JSONPatchType ''json''
              [Inl (OtherError ''i/o timeout'')]
              = (Inr (deployment_with 0 0), [Inl (OtherError ''i/o timeout'')])"
    by (simp add: scripted_conn_def)
  have rY: "Retry (Timeout scripted_helpers ''delete'' ?d)
              (waitForDeploymentReplicasFunc scripted_conn ''default'' ''web'')
              ([Inl (OtherError ''i/o timeout'')], [?P])
              = (Returns (Some (OtherError ''i/o timeout'')), ([], [?P, ?G]))"
    by (simp add: tm Retry_def waitForDeploymentReplicasFunc_def callDeploymentsGet_def
        scripted_conn_def)
  from delete_call_order [OF ip mj runY, where pout = "deployment_with 0 0"
              and pw = "[Inl (OtherError ''i/o timeout'')]"
              and r = "Returns (Some (OtherError ''i/o timeout''))" and ?s2.0 = "([], [?P, ?G])"
              and ?w2.0 = "[]" and ?tr2.0 = "[]" and derr = "OtherError []" and ?w3.0 = "[]"]
    pY rY
  have "fst ?Y = Returns (Some (OtherError ''i/o timeout'')) \<and> fst (snd ?Y) = ?d \<and>
        fst (snd (snd ?Y)) = [] \<and> snd (snd (snd ?Y)) = [?P, ?G]"
    by auto
  then have c: "?Y = (Returns (Some (OtherError ''i/o timeout'')), ?d, ([], [?P, ?G]))"
    by (metis prod.collapse)
  from scripted_delete_run a b c show ?thesis by simp
qed

text \<open>
  Claim C9: the Create, Read and Update operations that the role resource registers
  return nil for every input, leave the local record as it is and issue no call to the
  external API; the resource also registers Delete and Exists.
\<close>

theorem role_create_read_update_noop:
  "Create (resourceKubernetesRole h) d meta s = (None, d, s) \<and>
   Read (resourceKubernetesRole h) d meta s = (None, d, s) \<and>
   Update (resourceKubernetesRole h) d meta s = (None, d, s) \<and>
   Delete (resourceKubernetesRole h) = resourceKubernetesRoleDelete h \<and>
   Exists (resourceKubernetesRole h) = resourceKubernetesRoleExists h"
  by (simp add: resourceKubernetesRole_def resourceKubernetesRoleCreate_def
      resourceKubernetesRoleRead_def resourceKubernetesRoleUpdate_def)

text \<open>
  Claim C10: the deployment's Read, Update, Delete and Exists do not depend on the error
  that \<open>idParts\<close> returns: with another parse function that returns the same namespace
  and name, each of them returns the same result. With a parse error, each of the four
  goes on with the returned namespace and name: Read and Exists fetch that object; Delete
  (when the patch can be serialised) patches that object, polls it at least once if the
  patch succeeds and the timeout allows a poll, and issues nothing but a final delete of
  that object besides; Update (when the spec expands and the patch can be serialised)
  patches that object and then only fetches it, at least once under the same conditions.
  The role's Delete and Exists return the parse error at once, without any call and
  without any change.
\<close>

theorem deployment_ignores_parse_error:
  assumes "\<forall>i. fst (p i) = fst (idParts h i) \<and> fst (snd (p i)) = fst (snd (idParts h i))"
  shows "resourceKubernetesDeploymentRead (h\<lparr>idParts := p\<rparr>) conn d s
           = resourceKubernetesDeploymentRead h conn d s \<and>
         resourceKubernetesDeploymentUpdate (h\<lparr>idParts := p\<rparr>) conn d s
           = resourceKubernetesDeploymentUpdate h conn d s \<and>
         resourceKubernetesDeploymentDelete (h\<lparr>idParts := p\<rparr>) conn d s
           = resourceKubernetesDeploymentDelete h conn d s \<and>
         resourceKubernetesDeploymentExists (h\<lparr>idParts := p\<rparr>) conn d s
           = resourceKubernetesDeploymentExists h conn d s \<and>
         (idParts h (ID d) = (ns, name, Some err) \<longrightarrow>
            snd (snd (snd (resourceKubernetesDeploymentRead h conn d (w, tr))))
              = tr @ [GetDeployment ns name] \<and>
            snd (snd (resourceKubernetesDeploymentExists h conn d (w, tr)))
              = tr @ [GetDeployment ns name] \<and>
            resourceKubernetesRoleDelete h d conn s = (Some err, d, s) \<and>
            resourceKubernetesRoleExists h d conn s = ((False, Some err), s) \<and>
            (MarshalJSON h [ReplaceOperation ''/spec/replicas'' (IntValue 0)] = (data, None) \<longrightarrow>
               (\<exists>k tail.
                  snd (snd (snd (resourceKubernetesDeploymentDelete h conn d (w, tr))))
                    = tr @ PatchDeployment ns name JSONPatchType data
                           # replicate k (GetDeployment ns name) @ tail \<and>
                  (tail = [] \<or>
                   tail = [DeleteDeployment ns name
                             \<lparr>PropagationPolicy = Some DeletePropagationForeground\<rparr>]) \<and>
                  ((\<exists>out. fst (DeploymentsPatch conn ns name JSONPatchType data w) = Inr out) \<and>
                   0 < Timeout h ''delete'' d \<longrightarrow> 0 < k))) \<and>
            ((HasChange h ''spec'' d \<longrightarrow>
                snd (expandDeploymentSpec h (dGet h ''spec'' d)) = None) \<and>
             MarshalJSON h
               (patchMetadata h ''metadata.0.'' ''/metadata/'' d @
                (if HasChange h ''spec'' d
                 then [ReplaceOperation ''/spec''
                         (SpecValue (fst (expandDeploymentSpec h (dGet h ''spec'' d))))]
                 else [])) = (udata, None) \<longrightarrow>
               (\<exists>k.
                  snd (snd (snd (resourceKubernetesDeploymentUpdate h conn d (w, tr))))
                    = tr @ PatchDeployment ns name JSONPatchType udata
                           # replicate k (GetDeployment ns name) \<and>
                  ((\<exists>out. fst (DeploymentsPatch conn ns name JSONPatchType udata w) = Inr out) \<and>
                   0 < Timeout h ''update'' d \<longrightarrow> 0 < k))))"
proof -
  have R: "resourceKubernetesDeploymentRead (h\<lparr>idParts := p\<rparr>) conn d s
             = resourceKubernetesDeploymentRead h conn d s"
    by (rule Read_ignores_parse_error [OF assms])
  have U: "resourceKubernetesDeploymentUpdate (h\<lparr>idParts := p\<rparr>) conn d s
             = resourceKubernetesDeploymentUpdate h conn d s"
    by (rule Update_ignores_parse_error [OF assms])
  have D: "resourceKubernetesDeploymentDelete (h\<lparr>idParts := p\<rparr>) conn d s
             = resourceKubernetesDeploymentDelete h conn d s"
    by (rule Delete_ignores_parse_error [OF assms])
  have E: "resourceKubernetesDeploymentExists (h\<lparr>idParts := p\<rparr>) conn d s
             = resourceKubernetesDeploymentExists h conn d s"
    by (rule Exists_ignores_parse_error [OF assms])
  show ?thesis
  proof (intro conjI impI)
    show "resourceKubernetesDeploymentRead (h\<lparr>idParts := p\<rparr>) conn d s
             = resourceKubernetesDeploymentRead h conn d s" by (rule R)
    show "resourceKubernetesDeploymentUpdate (h\<lparr>idParts := p\<rparr>) conn d s
             = resourceKubernetesDeploymentUpdate h conn d s" by (rule U)
    show "resourceKubernetesDeploymentDelete (h\<lparr>idParts := p\<rparr>) conn d s
             = resourceKubernetesDeploymentDelete h conn d s" by (rule D)
    show "resourceKubernetesDeploymentExists (h\<lparr>idParts := p\<rparr>) conn d s
             = resourceKubernetesDeploymentExists h conn d s" by (rule E)
  next
    assume pe: "idParts h (ID d) = (ns, name, Some err)"
    show "snd (snd (snd (resourceKubernetesDeploymentRead h conn d (w, tr))))
            = tr @ [GetDeployment ns name]"
      by (rule Read_trace [OF pe])
    show "snd (snd (resourceKubernetesDeploymentExists h conn d (w, tr)))
            = tr @ [GetDeployment ns name]"
      using pe
      by (auto simp: resourceKubernetesDeploymentExists_def callDeploymentsGet_def
          split: prod.splits sum.splits error.splits)
    show "resourceKubernetesRoleDelete h d conn s = (Some err, d, s)"
      using pe by (simp add: resourceKubernetesRoleDelete_def)
    show "resourceKubernetesRoleExists h d conn s = ((False, Some err), s)"
      using pe by (simp add: resourceKubernetesRoleExists_def)
  next
    assume pe: "idParts h (ID d) = (ns, name, Some err)"
       and mj: "MarshalJSON h [ReplaceOperation ''/spec/replicas'' (IntValue 0)] = (data, None)"
    show "\<exists>k tail.
            snd (snd (snd (resourceKubernetesDeploymentDelete h conn d (w, tr))))
              = tr @ PatchDeployment ns name JSONPatchType data
                     # replicate k (GetDeployment ns name) @ tail \<and>
            (tail = [] \<or>
             tail = [DeleteDeployment ns name
                       \<lparr>PropagationPolicy = Some DeletePropagationForeground\<rparr>]) \<and>
            ((\<exists>out. fst (DeploymentsPatch conn ns name JSONPatchType data w) = Inr out) \<and>
             0 < Timeout h ''delete'' d \<longrightarrow> 0 < k)"
      by (rule Delete_trace [OF pe mj])
  next
    assume pe: "idParts h (ID d) = (ns, name, Some err)"
       and um: "(HasChange h ''spec'' d \<longrightarrow>
                   snd (expandDeploymentSpec h (dGet h ''spec'' d)) = None) \<and>
                MarshalJSON h
                  (patchMetadata h ''metadata.0.'' ''/metadata/'' d @
                   (if HasChange h ''spec'' d
                    then [ReplaceOperation ''/spec''
                            (SpecValue (fst (expandDeploymentSpec h (dGet h ''spec'' d))))]
                    else [])) = (udata, None)"
    show "\<exists>k.
            snd (snd (snd (resourceKubernetesDeploymentUpdate h conn d (w, tr))))
              = tr @ PatchDeployment ns name JSONPatchType udata
                     # replicate k (GetDeployment ns name) \<and>
            ((\<exists>out. fst (DeploymentsPatch conn ns name JSONPatchType udata w) = Inr out) \<and>
             0 < Timeout h ''update'' d \<longrightarrow> 0 < k)"
      by (rule Update_trace [OF pe conjunct1 [OF um] conjunct2 [OF um]])
  qed
qed

text \<open>
  An instance: the identity \<open>web\<close>, for which the scripted parse function returns an
  error with an empty namespace and name.
\<close>

lemma scripted_malformed_delete_trace:
  "snd (snd (snd (resourceKubernetesDeploymentDelete scripted_helpers scripted_conn
     \<lparr>ID = ''web'', Config = ()\<rparr> ([Inr (deployment_with 1 1), Inr (deployment_with 1 1)], []))))
   = [PatchDeployment [] [] JSONPatchType ''json'', GetDeployment [] [],
      DeleteDeployment [] [] \<lparr>PropagationPolicy = Some DeletePropagationForeground\<rparr>]"
  by (simp add: resourceKubernetesDeploymentDelete_def scripted_helpers_def scripted_conn_def
      callDeploymentsPatch_def callDeploymentsGet_def callDeploymentsDelete_def
      waitForDeploymentReplicasFunc_def Retry_def deployment_with_def)

lemma scripted_malformed_update_trace:
  "snd (snd (snd (resourceKubernetesDeploymentUpdate scripted_helpers scripted_conn
     \<lparr>ID = ''web'', Config = ()\<rparr> ([Inr (deployment_with 1 1), Inr (deployment_with 1 1)], []))))
   = [PatchDeployment [] [] JSONPatchType ''json'', GetDeployment [] [], GetDeployment [] []]"
  by (simp add: resourceKubernetesDeploymentUpdate_def resourceKubernetesDeploymentRead_def
      scripted_helpers_def scripted_conn_def
      callDeploymentsPatch_def callDeploymentsGet_def
      waitForDeploymentReplicasFunc_def Retry_def deployment_with_def)

theorem deployment_ignores_parse_error_witness:
  "resourceKubernetesDeploymentExists
     (scripted_helpers\<lparr>idParts := (\<lambda>i. if i = ''default/web'' then (''default'', ''web'', None)
                                         else ([], [], None))\<rparr>)
     scripted_conn \<lparr>ID = ''web'', Config = ()\<rparr> ([Inr (deployment_with 1 1)], [])
     = resourceKubernetesDeploymentExists scripted_helpers
         scripted_conn \<lparr>ID = ''web'', Config = ()\<rparr> ([Inr (deployment_with 1 1)], []) \<and>
   snd (snd (resourceKubernetesDeploymentExists scripted_helpers
         scripted_conn \<lparr>ID = ''web'', Config = ()\<rparr> ([Inr (deployment_with 1 1)], [])))
     = [GetDeployment [] []] \<and>
   snd (snd (snd (resourceKubernetesDeploymentRead scripted_helpers
         scripted_conn \<lparr>ID = ''web'', Config = ()\<rparr> ([Inr (deployment_with 1 1)], []))))
     = [GetDeployment [] []] \<and>
   resourceKubernetesRoleDelete scripted_helpers \<lparr>ID = ''web'', Config = ()\<rparr> scripted_conn
       ([Inr (deployment_with 1 1)], [])
     = (Some (OtherError ''Unexpected ID format''), \<lparr>ID = ''web'', Config = ()\<rparr>,
        ([Inr (deployment_with 1 1)], [])) \<and>
   resourceKubernetesRoleExists scripted_helpers \<lparr>ID = ''web'', Config = ()\<rparr> scripted_conn
       ([Inr (deployment_with 1 1)], [])
     = ((False, Some (OtherError ''Unexpected ID format'')), ([Inr (deployment_with 1 1)], [])) \<and>
   (\<exists>k tail. 0 < k \<and>
      snd (snd (snd (resourceKubernetesDeploymentDelete scripted_helpers scripted_conn
        \<lparr>ID = ''web'', Config = ()\<rparr>
        ([Inr (deployment_with 1 1), Inr (deployment_with 1 1)], []))))
        = PatchDeployment [] [] JSONPatchType ''json'' # replicate k (GetDeployment [] []) @ tail) \<and>
   snd (snd (snd (resourceKubernetesDeploymentDelete scripted_helpers scripted_conn
     \<lparr>ID = ''web'', Config = ()\<rparr> ([Inr (deployment_with 1 1), Inr (deployment_with 1 1)], []))))
     = [PatchDeployment [] [] JSONPatchType ''json'', GetDeployment [] [],
        DeleteDeployment [] [] \<lparr>PropagationPolicy = Some DeletePropagationForeground\<rparr>] \<and>
   (\<exists>k. 0 < k \<and>
      snd (snd (snd (resourceKubernetesDeploymentUpdate scripted_helpers scripted_conn
        \<lparr>ID = ''web'', Config = ()\<rparr>
        ([Inr (deployment_with 1 1), Inr (deployment_with 1 1)], []))))
        = PatchDeployment [] [] JSONPatchType ''json'' # replicate k (GetDeployment [] [])) \<and>
   snd (snd (snd (resourceKubernetesDeploymentUpdate scripted_helpers scripted_conn
     \<lparr>ID = ''web'', Config = ()\<rparr> ([Inr (deployment_with 1 1), Inr (deployment_with 1 1)], []))))
     = [PatchDeployment [] [] JSONPatchType ''json'', GetDeployment [] [], GetDeployment [] []]"
proof -
  let ?d = "\<lparr>ID = ''web'', Config = ()\<rparr>"
  let ?p = "\<lambda>i. if i = ''default/web'' then (''default'', ''web'', None) else ([], [], None)"
  let ?w2 = "[Inr (deployment_with 1 1), Inr (deployment_with 1 1)]"
  have agree: "\<forall>i. fst (?p i) = fst (idParts scripted_helpers i) \<and>
                   fst (snd (?p i)) = fst (snd (idParts scripted_helpers i))"
    by (simp add: scripted_helpers_def)
  have ip: "idParts scripted_helpers (ID ?d) = ([], [], Some (OtherError ''Unexpected ID format''))"
    by (simp add: scripted_helpers_def)
  have mj: "MarshalJSON scripted_helpers [ReplaceOperation ''/spec/replicas'' (IntValue 0)]
              = (''json'', None)"
    by (simp add: scripted_helpers_def)
  have um: "(HasChange scripted_helpers ''spec'' ?d \<longrightarrow>
               snd (expandDeploymentSpec scripted_helpers (dGet scripted_helpers ''spec'' ?d)) = None) \<and>
            MarshalJSON scripted_helpers
              (patchMetadata scripted_helpers ''metadata.0.'' ''/metadata/'' ?d @
               (if HasChange scripted_helpers ''spec'' ?d
                then [ReplaceOperation ''/spec''
                        (SpecValue (fst (expandDeploymentSpec scripted_helpers
                                           (dGet scripted_helpers ''spec'' ?d))))]
                else [])) = (''json'', None)"
    by (simp add: scripted_helpers_def)
  have pt: "\<exists>out. fst (DeploymentsPatch scripted_conn [] [] JSONPatchType ''json'' ?w2) = Inr out"
    by (simp add: scripted_conn_def)
  have td: "0 < Timeout scripted_helpers ''delete'' ?d" "0 < Timeout scripted_helpers ''update'' ?d"
    by (simp_all add: scripted_helpers_def)
  note t1 = deployment_ignores_parse_error [OF agree, where conn = scripted_conn and d = ?d
              and s = "([Inr (deployment_with 1 1)], [])" and w = "[Inr (deployment_with 1 1)]"
              and tr = "[]" and ns = "[]" and name = "[]"
              and err = "OtherError ''Unexpected ID format''"
              and data = "''json''" and udata = "''json''"]
  note t2 = deployment_ignores_parse_error [OF agree, where conn = scripted_conn and d = ?d
              and s = "(?w2, [])" and w = ?w2
              and tr = "[]" and ns = "[]" and name = "[]"
              and err = "OtherError ''Unexpected ID format''"
              and data = "''json''" and udata = "''json''"]
  have a: "resourceKubernetesDeploymentExists (scripted_helpers\<lparr>idParts := ?p\<rparr>)
             scripted_conn ?d ([Inr (deployment_with 1 1)], [])
           = resourceKubernetesDeploymentExists scripted_helpers
               scripted_conn ?d ([Inr (deployment_with 1 1)], []) \<and>
           snd (snd (resourceKubernetesDeploymentExists scripted_helpers
               scripted_conn ?d ([Inr (deployment_with 1 1)], []))) = [GetDeployment [] []] \<and>
           snd (snd (snd (resourceKubernetesDeploymentRead scripted_helpers
               scripted_conn ?d ([Inr (deployment_with 1 1)], [])))) = [GetDeployment [] []] \<and>
           resourceKubernetesRoleDelete scripted_helpers ?d scripted_conn
               ([Inr (deployment_with 1 1)], [])
             = (Some (OtherError ''Unexpected ID format''), ?d, ([Inr (deployment_with 1 1)], [])) \<and>
           resourceKubernetesRoleExists scripted_helpers ?d scripted_conn
               ([Inr (deployment_with 1 1)], [])
             = ((False, Some (OtherError ''Unexpected ID format'')),
                ([Inr (deployment_with 1 1)], []))"
    using t1 ip by simp
  have b: "\<exists>k tail. 0 < k \<and>
      snd (snd (snd (resourceKubernetesDeploymentDelete scripted_helpers scripted_conn ?d (?w2, []))))
        = PatchDeployment [] [] JSONPatchType ''json'' # replicate k (GetDeployment [] []) @ tail"
    using t2 ip mj pt td(1) by auto
  have c: "\<exists>k. 0 < k \<and>
      snd (snd (snd (resourceKubernetesDeploymentUpdate scripted_helpers scripted_conn ?d (?w2, []))))
        = PatchDeployment [] [] JSONPatchType ''json'' # replicate k (GetDeployment [] [])"
    using t2 ip um pt td(2) by auto
  from a b c scripted_malformed_delete_trace scripted_malformed_update_trace
  show ?thesis by simp
qed

end
